theory Spec2Isabelle
  imports Complex_Main "HOL-Library.Product_Lexorder" "HOL-Library.Multiset"
begin

section \<open>Data model of analyze.py\<close>

text \<open>
  A row of \<^verbatim>\<open>data/strong.csv\<close> after \<^verbatim>\<open>pd.to_datetime\<close>: the columns the program
  reads. A timestamp is a calendar date (year, month, day) and the time of day; the
  lexicographic order on it is the chronological one, \<^verbatim>\<open>.dt.year\<close> is its first
  component and \<^verbatim>\<open>.dt.date\<close> its calendar date. Every cell holds a value (no NaN).

  \<^verbatim>\<open>Reps\<close> is an int64 column: a cell is an integer from \<open>- 2 ^ 63\<close> to \<open>2 ^ 63 - 1\<close>, and
  arithmetic on the column wraps around (\<open>wrap64\<close> below). \<^verbatim>\<open>Weight\<close> is an int64 column
  when every weight of the file is written as an integer, and a float64 column otherwise;
  the frame carries this dtype. A float64 value is an exact rational here (the rounding
  of float64 is not modelled); a weight of an int64 column is an integer in the int64
  range.
\<close>

type_synonym calendar_date = "int \<times> nat \<times> nat"
type_synonym timestamp = "calendar_date \<times> nat"

definition dt_year :: "timestamp \<Rightarrow> int" where
  "dt_year t = fst (fst t)"

definition dt_date :: "timestamp \<Rightarrow> calendar_date" where
  "dt_date t = fst t"

datatype dtype = Int64 | Float64

record log_record =
  Date :: timestamp
  Exercise_Name :: string
  Weight :: rat
  Reps :: int

text \<open>The frame of one group, after line 187 has added the \<^verbatim>\<open>Volume\<close> column.\<close>

record volume_record = log_record +
  Volume :: rat

type_synonym data_frame = "log_record list"

record exercise_stats =
  total_volume :: rat
  total_sets :: nat
  total_reps :: int
  avg_weight :: "rat option"
  max_weight :: "rat option"
  training_days :: nat

type_synonym stats_dict = "string \<rightharpoonup> exercise_stats"
type_synonym dfs_dict = "string \<rightharpoonup> volume_record list"

text \<open>
  The value of an int64 result: the integer congruent modulo \<open>2 ^ 64\<close> that lies in the
  int64 range. Sums and products of int64 columns are taken in the integers and wrapped
  once, which gives the same value as wrapping at every step.
\<close>

definition wrap64 :: "int \<Rightarrow> int" where
  "wrap64 i = (i + 2 ^ 63) mod 2 ^ 64 - 2 ^ 63"

definition in_int64 :: "int \<Rightarrow> bool" where
  "in_int64 i \<longleftrightarrow> - (2 ^ 63) \<le> i \<and> i < 2 ^ 63"

section \<open>Exceptions and the data file\<close>

datatype exc_class =
  FileNotFoundError | PermissionError | OSError | ValueError | ZeroDivisionError
  | IndexError | RuntimeError

text \<open>An exception is its class and the text \<^verbatim>\<open>str(e)\<close>.\<close>

datatype py_exception = PyExc exc_class string

fun exc_class_of :: "py_exception \<Rightarrow> exc_class" where
  "exc_class_of (PyExc c m) = c"

fun exc_str :: "py_exception \<Rightarrow> string" where
  "exc_str (PyExc c m) = m"

text \<open>
  What \<^verbatim>\<open>data/strong.csv\<close> is when the program runs: no such file, a file the process
  may not open, a file that \<^verbatim>\<open>read_csv\<close> or \<^verbatim>\<open>to_datetime\<close> rejects with a message,
  or a table of rows with the dtype of its \<^verbatim>\<open>Weight\<close> column.
\<close>

datatype file_state = Absent | Unreadable | Malformed string | Table dtype data_frame

definition csv_path :: string where
  "csv_path = ''data/strong.csv''"

text \<open>A string between single quotes, as Python's \<^verbatim>\<open>repr\<close> prints a path.\<close>

definition quoted :: "string \<Rightarrow> string" where
  "quoted s = CHR 0x27 # s @ [CHR 0x27]"

definition read_csv :: "file_state \<Rightarrow> py_exception + dtype \<times> data_frame" where
  "read_csv fs =
     (case fs of
        Absent \<Rightarrow> Inl (PyExc FileNotFoundError
                   (''[Errno 2] No such file or directory: '' @ quoted csv_path))
      | Unreadable \<Rightarrow> Inl (PyExc PermissionError
                   (''[Errno 13] Permission denied: '' @ quoted csv_path))
      | Malformed msg \<Rightarrow> Inl (PyExc ValueError msg)
      | Table weight_dtype rows \<Rightarrow> Inr (weight_dtype, rows))"

section \<open>analyze_exercises\<close>

text \<open>
  Line 187, \<^verbatim>\<open>Weight * Reps\<close>: an int64 product, which wraps, when \<^verbatim>\<open>Weight\<close> is an int64
  column, and a float64 product otherwise.
\<close>

definition with_volume :: "dtype \<Rightarrow> log_record \<Rightarrow> volume_record" where
  "with_volume weight_dtype r =
     \<lparr>Date = Date r, Exercise_Name = Exercise_Name r, Weight = Weight r, Reps = Reps r,
      Volume = (case weight_dtype of
                  Int64 \<Rightarrow> of_int (wrap64 (\<lfloor>Weight r\<rfloor> * Reps r))
                | Float64 \<Rightarrow> Weight r * of_int (Reps r))\<rparr>"

text \<open>
  \<^verbatim>\<open>Series.sum\<close>: an int64 sum, which wraps, on an int64 column. \<^verbatim>\<open>Series.mean\<close> sums
  in float64 whatever the dtype, and \<^verbatim>\<open>Series.max\<close> does no arithmetic; both are NaN
  (here \<open>None\<close>) on an empty column.
\<close>

definition series_sum :: "dtype \<Rightarrow> rat list \<Rightarrow> rat" where
  "series_sum column_dtype xs =
     (case column_dtype of
        Int64 \<Rightarrow> of_int (wrap64 (sum_list (map floor xs)))
      | Float64 \<Rightarrow> sum_list xs)"

fun series_mean :: "rat list \<Rightarrow> rat option" where
  "series_mean [] = None"
| "series_mean (x # xs) = Some (sum_list (x # xs) / of_nat (length (x # xs)))"

fun series_max :: "rat list \<Rightarrow> rat option" where
  "series_max [] = None"
| "series_max (x # xs) = Some (fold max xs x)"

text \<open>
  Lines 187 and 188: the \<^verbatim>\<open>Volume\<close> column, then \<^verbatim>\<open>sort_values('Date')\<close>, here the
  insertion sort \<open>sort_key\<close>. Pandas leaves the order of rows with equal dates open, and
  nothing below depends on it.
\<close>

definition exercise_frame :: "dtype \<Rightarrow> data_frame \<Rightarrow> volume_record list" where
  "exercise_frame weight_dtype exercise_df =
     sort_key Date (map (with_volume weight_dtype) exercise_df)"

text \<open>
  Lines 190 to 199: the statistics of one group's frame. The \<^verbatim>\<open>Volume\<close> column has the
  dtype of \<^verbatim>\<open>Weight\<close>.
\<close>

definition group_stats :: "dtype \<Rightarrow> volume_record list \<Rightarrow> exercise_stats" where
  "group_stats weight_dtype exercise_df =
     (let unique_days = length (remdups (map (\<lambda>r. dt_date (Date r)) exercise_df))
      in \<lparr>total_volume = series_sum weight_dtype (map Volume exercise_df),
          total_sets = length exercise_df,
          total_reps = wrap64 (sum_list (map Reps exercise_df)),
          avg_weight = series_mean (map Weight exercise_df),
          max_weight = series_max (map Weight exercise_df),
          training_days = unique_days\<rparr>)"

text \<open>
  One pass of the loop of lines 181 to 202, on the frame already restricted to the year:
  an empty selection leaves both dictionaries as they are (\<^verbatim>\<open>continue\<close>).
\<close>

definition analyze_group ::
  "dtype \<Rightarrow> data_frame \<Rightarrow> string \<times> string list \<Rightarrow> stats_dict \<times> dfs_dict
     \<Rightarrow> stats_dict \<times> dfs_dict" where
  "analyze_group weight_dtype df entry acc =
     (case entry of (main_exercise, alt_names) \<Rightarrow>
      case acc of (all_stats, all_dfs) \<Rightarrow>
        let exercise_df = filter (\<lambda>r. Exercise_Name r \<in> set alt_names) df in
        if length exercise_df = 0 then (all_stats, all_dfs)
        else
          let exercise_df = exercise_frame weight_dtype exercise_df;
              stats = group_stats weight_dtype exercise_df
          in (all_stats(main_exercise \<mapsto> stats), all_dfs(main_exercise \<mapsto> exercise_df)))"

text \<open>
  \<^verbatim>\<open>exercise_mappings\<close> is a dict: an association list in insertion order, whose keys
  are distinct.
\<close>

definition analyze_exercises ::
  "file_state \<Rightarrow> (string \<times> string list) list \<Rightarrow> int
     \<Rightarrow> py_exception + (stats_dict \<times> dfs_dict)" where
  "analyze_exercises fs exercise_mappings year =
     (case read_csv fs of
        Inl e \<Rightarrow> Inl e
      | Inr (weight_dtype, df) \<Rightarrow>
          let df = filter (\<lambda>r. dt_year (Date r) = year) df
          in Inr (fold (analyze_group weight_dtype df) exercise_mappings
                    (Map.empty, Map.empty)))"

section \<open>The library calls of a run\<close>

text \<open>
  What a run meets outside the program. Besides the data file, a call into matplotlib,
  numpy or \<^verbatim>\<open>os\<close> may raise: since the first exception ends the run, the environment
  names at most one such call, by the line of \<^verbatim>\<open>analyze.py\<close> it stands on, with the
  exception it raises when the run reaches it. When it is \<^verbatim>\<open>plt.savefig\<close> that raises,
  the environment also says whether a part of the image file had been written.
\<close>

record environment =
  data_file :: file_state
  fault :: "(nat \<times> py_exception) option"
  partial_write :: bool

definition call :: "environment \<Rightarrow> nat \<Rightarrow> py_exception + unit" where
  "call env line =
     (case fault env of
        None \<Rightarrow> Inr ()
      | Some (n, e) \<Rightarrow> if n = line then Inl e else Inr ())"

fun calls :: "environment \<Rightarrow> nat list \<Rightarrow> py_exception + unit" where
  "calls env [] = Inr ()"
| "calls env (line # lines) =
     (case call env line of Inl e \<Rightarrow> Inl e | Inr u \<Rightarrow> calls env lines)"

text \<open>Sequencing: an exception of the first step skips the rest.\<close>

definition then_do :: "py_exception + 'a \<Rightarrow> ('a \<Rightarrow> py_exception + 'b) \<Rightarrow> py_exception + 'b" where
  "then_do r f = (case r of Inl e \<Rightarrow> Inl e | Inr x \<Rightarrow> f x)"

section \<open>The panels of the report\<close>

text \<open>
  Python's \<^verbatim>\<open>/\<close> on two ints: \<^verbatim>\<open>ZeroDivisionError\<close> when the divisor is zero.
  \<^verbatim>\<open>total_sets\<close> is a \<^verbatim>\<open>len\<close> and \<^verbatim>\<open>training_days\<close> a \<^verbatim>\<open>nunique\<close>, both plain ints.
\<close>

definition truediv :: "nat \<Rightarrow> nat \<Rightarrow> py_exception + rat" where
  "truediv a b =
     (if b = 0 then Inl (PyExc ZeroDivisionError ''division by zero'')
      else Inr (of_nat a / of_nat b))"

text \<open>
  \<^verbatim>\<open>str.replace(old, new)\<close>: every occurrence of \<open>old\<close>, found from the left and not
  overlapping, becomes \<open>new\<close>; an empty \<open>old\<close> matches before every character and at
  the end.
\<close>

function str_replace :: "string \<Rightarrow> string \<Rightarrow> string \<Rightarrow> string" where
  "str_replace old new s =
     (if old = [] then new @ concat (map (\<lambda>c. c # new) s)
      else if s = [] then []
      else if take (length old) s = old then new @ str_replace old new (drop (length old) s)
      else hd s # str_replace old new (tl s))"
  by pat_completeness auto
termination
  by (relation "measure (\<lambda>(old, new, s). length s)") (auto simp: neq_Nil_conv)

declare str_replace.simps [simp del]

definition label_of :: "string \<Rightarrow> string" where
  "label_of ex = str_replace '' (Barbell)'' [] ex"

text \<open>
  A row of the statistics table. The source formats each cell as text
  (\<^verbatim>\<open>f"{...:.1f}"\<close>); the row here holds the numbers that are formatted.
\<close>

record table_row =
  row_name :: string
  row_training_days :: nat
  row_total_sets :: nat
  row_sets_per_day :: rat
  row_total_reps :: int
  row_total_volume :: rat
  row_avg_weight :: "rat option"
  row_max_weight :: "rat option"

text \<open>The loop of lines 62 to 78, which fills \<^verbatim>\<open>table_data\<close>.\<close>

fun table_data_rows :: "stats_dict \<Rightarrow> string list \<Rightarrow> py_exception + table_row list" where
  "table_data_rows stats [] = Inr []"
| "table_data_rows stats (ex # exercises) =
     (case stats ex of
        None \<Rightarrow> table_data_rows stats exercises
      | Some s \<Rightarrow>
          (case truediv (total_sets s) (training_days s) of
             Inl e \<Rightarrow> Inl e
           | Inr sets_per_day \<Rightarrow>
               (case table_data_rows stats exercises of
                  Inl e \<Rightarrow> Inl e
                | Inr table_data \<Rightarrow>
                    Inr (\<lparr>row_name = label_of ex,
                          row_training_days = training_days s,
                          row_total_sets = total_sets s,
                          row_sets_per_day = sets_per_day,
                          row_total_reps = total_reps s,
                          row_total_volume = total_volume s,
                          row_avg_weight = avg_weight s,
                          row_max_weight = max_weight s\<rparr> # table_data))))"

text \<open>
  \<^verbatim>\<open>ax.table\<close> at line 80 reads the number of columns from the first row of
  \<^verbatim>\<open>cellText\<close>: with no row it raises \<^verbatim>\<open>IndexError\<close>.
\<close>

definition create_detailed_stats_table ::
  "environment \<Rightarrow> stats_dict \<Rightarrow> string list \<Rightarrow> py_exception + table_row list" where
  "create_detailed_stats_table env stats exercises =
     then_do (calls env [48, 49]) (\<lambda>u.
     then_do (table_data_rows stats exercises) (\<lambda>table_data.
     then_do (if table_data = [] then Inl (PyExc IndexError ''list index out of range'')
              else call env 80) (\<lambda>u.
     then_do (calls env [88, 89, 90, 94, 96]) (\<lambda>u.
     Inr table_data))))"

text \<open>The list comprehension of lines 100 and 101, paired with the labels of line 102.\<close>

fun sets_per_session :: "stats_dict \<Rightarrow> string list \<Rightarrow> py_exception + (string \<times> rat) list" where
  "sets_per_session stats [] = Inr []"
| "sets_per_session stats (ex # exercises) =
     (case stats ex of
        None \<Rightarrow> sets_per_session stats exercises
      | Some s \<Rightarrow>
          (case truediv (total_sets s) (training_days s) of
             Inl e \<Rightarrow> Inl e
           | Inr v \<Rightarrow>
               (case sets_per_session stats exercises of
                  Inl e \<Rightarrow> Inl e
                | Inr bars \<Rightarrow> Inr ((label_of ex, v) # bars))))"

text \<open>A loop over the bars makes its library call only when there is a bar.\<close>

definition create_sets_per_session_plot ::
  "environment \<Rightarrow> stats_dict \<Rightarrow> string list \<Rightarrow> py_exception + (string \<times> rat) list" where
  "create_sets_per_session_plot env stats exercises =
     then_do (sets_per_session stats exercises) (\<lambda>bars.
     then_do (calls env ([104, 105, 106, 107] @ (if bars = [] then [] else [111]) @ [113])) (\<lambda>u.
     Inr bars))"

definition create_training_days_plot ::
  "environment \<Rightarrow> stats_dict \<Rightarrow> string list \<Rightarrow> py_exception + (string \<times> nat) list" where
  "create_training_days_plot env stats exercises =
     (let bars = concat (map (\<lambda>ex. case stats ex of
                                None \<Rightarrow> []
                              | Some s \<Rightarrow> [(label_of ex, training_days s)]) exercises)
      in then_do
           (calls env ([120, 121, 122, 123] @ (if bars = [] then [] else [127]) @ [129])) (\<lambda>u.
         Inr bars))"

definition create_volume_plot ::
  "environment \<Rightarrow> stats_dict \<Rightarrow> string list \<Rightarrow> py_exception + (string \<times> rat) list" where
  "create_volume_plot env stats exercises =
     (let bars = concat (map (\<lambda>ex. case stats ex of
                                None \<Rightarrow> []
                              | Some s \<Rightarrow> [(label_of ex, total_volume s)]) exercises)
      in then_do
           (calls env ([136, 137, 138, 139]
              @ (if bars = [] then [] else [143, 144]) @ [148])) (\<lambda>u.
         Inr bars))"

text \<open>
  The scatter data of each group, in the order of the frame. The dashed trend line is a
  least-squares fit in floating point: its call (line 162) is a library call like the
  others, and its values are left out.
\<close>

definition create_weight_progression_plot ::
  "environment \<Rightarrow> dfs_dict \<Rightarrow> string list
     \<Rightarrow> py_exception + (string \<times> (timestamp \<times> rat) list) list" where
  "create_weight_progression_plot env dfs exercises =
     (let series = concat (map (\<lambda>exercise. case dfs exercise of
                      None \<Rightarrow> []
                    | Some df \<Rightarrow> [(label_of exercise, map (\<lambda>r. (Date r, Weight r)) df)])
                    exercises)
      in then_do
           (calls env ((if series = [] then [] else [159, 162, 163, 164])
              @ [166, 167, 168, 169, 170, 171])) (\<lambda>u.
         Inr series))"

section \<open>create_comprehensive_report and the main block\<close>

text \<open>Decimal text of an int, as an f-string prints it.\<close>

function str_nat :: "nat \<Rightarrow> string" where
  "str_nat n =
     (if n < 10 then [''0123456789'' ! n]
      else str_nat (n div 10) @ [''0123456789'' ! (n mod 10)])"
  by pat_completeness auto
termination
  by (relation "measure id") auto

declare str_nat.simps [simp del]

definition str_int :: "int \<Rightarrow> string" where
  "str_int i = (if i < 0 then CHR ''-'' # str_nat (nat (- i)) else str_nat (nat i))"

record report =
  title :: string
  stats_table :: "table_row list"
  training_days_bars :: "(string \<times> nat) list"
  sets_per_session_bars :: "(string \<times> rat) list"
  volume_bars :: "(string \<times> rat) list"
  weight_progression :: "(string \<times> (timestamp \<times> rat) list) list"

text \<open>
  What the run has done to \<^verbatim>\<open>output/training_report.png\<close>: nothing, a part of an image
  (a \<^verbatim>\<open>savefig\<close> that raised while writing), or the image of the report.
\<close>

datatype output_file = Untouched | Partial | Saved report

definition default_year :: int where
  "default_year = 2024"

text \<open>
  The result is the exception that leaves the function, if any, and what has been
  written. Line 12 calls \<^verbatim>\<open>analyze_exercises(exercise_mappings)\<close> with the default year.
  Lines 12 to 41 build the figure in memory; line 42 makes the directory, line 43 writes
  the file and line 44 closes the figure.
\<close>

definition create_comprehensive_report ::
  "environment \<Rightarrow> (string \<times> string list) list \<Rightarrow> int
     \<Rightarrow> py_exception option \<times> output_file" where
  "create_comprehensive_report env exercise_mappings year =
     (let fig =
        then_do (analyze_exercises (data_file env) exercise_mappings default_year)
          (\<lambda>(stats, dfs).
        let main_exercises = map fst exercise_mappings in
        then_do (calls env [15, 16, 19, 22]) (\<lambda>u.
        then_do (create_detailed_stats_table env stats main_exercises) (\<lambda>table_data.
        then_do (call env 26) (\<lambda>u.
        then_do (create_training_days_plot env stats main_exercises) (\<lambda>days.
        then_do (call env 30) (\<lambda>u.
        then_do (create_sets_per_session_plot env stats main_exercises) (\<lambda>sets.
        then_do (call env 34) (\<lambda>u.
        then_do (create_volume_plot env stats main_exercises) (\<lambda>volumes.
        then_do (call env 38) (\<lambda>u.
        then_do (create_weight_progression_plot env dfs main_exercises) (\<lambda>progress.
        then_do (call env 41) (\<lambda>u.
        Inr \<lparr>title = ''Training Analysis Report - '' @ str_int year,
             stats_table = table_data,
             training_days_bars = days,
             sets_per_session_bars = sets,
             volume_bars = volumes,
             weight_progression = progress\<rparr>))))))))))))
      in case fig of
           Inl e \<Rightarrow> (Some e, Untouched)
         | Inr fig \<Rightarrow>
             (case call env 42 of
                Inl e \<Rightarrow> (Some e, Untouched)
              | Inr u \<Rightarrow>
                  (case call env 43 of
                     Inl e \<Rightarrow> (Some e, if partial_write env then Partial else Untouched)
                   | Inr u \<Rightarrow>
                       (case call env 44 of
                          Inl e \<Rightarrow> (Some e, Saved fig)
                        | Inr u \<Rightarrow> (None, Saved fig)))))"

definition exercise_mappings :: "(string \<times> string list) list" where
  "exercise_mappings =
     [(''Squat (Barbell)'', [''Squat (Barbell)'']),
      (''Deadlift (Barbell)'', [''Deadlift (Barbell)'', ''Deadlift Old Data '']),
      (''Bench Press (Barbell)'', [''Bench Press (Barbell)'', ''Bench press Backup ''])]"

text \<open>What a run leaves: the lines printed and what it has written to the output path.\<close>

record run_outcome =
  printed :: "string list"
  written :: output_file

definition main :: "environment \<Rightarrow> run_outcome" where
  "main env =
     (case create_comprehensive_report env exercise_mappings default_year of
        (None, out) \<Rightarrow>
          \<lparr>printed = [''Report has been generated and saved as ''
                        @ quoted ''output/training_report.png''],
           written = out\<rparr>
      | (Some e, out) \<Rightarrow>
          if exc_class_of e = FileNotFoundError
          then \<lparr>printed = [''Error: Could not find '' @ quoted csv_path
                               @ ''. Please check the file path.''],
                written = out\<rparr>
          else \<lparr>printed = [''An error occurred: '' @ exc_str e], written = out\<rparr>)"

section \<open>The selection of a group and the example of the specification\<close>

text \<open>
  Step 1 of the aggregator's contract, in the spec's words: the records of the log whose
  exercise name is in the group's alias set and whose date falls in the target year.
\<close>

definition selection :: "data_frame \<Rightarrow> string list \<Rightarrow> int \<Rightarrow> data_frame" where
  "selection df alt_names year =
     filter (\<lambda>r. Exercise_Name r \<in> set alt_names \<and> dt_year (Date r) = year) df"

definition example_records :: data_frame where
  "example_records =
     [\<lparr>Date = ((2024, 1, 1), 0), Exercise_Name = ''Squat (Barbell)'', Weight = 100, Reps = 5\<rparr>,
      \<lparr>Date = ((2024, 1, 1), 0), Exercise_Name = ''Squat (Barbell)'', Weight = 105, Reps = 3\<rparr>,
      \<lparr>Date = ((2024, 1, 8), 0), Exercise_Name = ''Squat (Barbell)'', Weight = 110, Reps = 5\<rparr>]"

text \<open>A report with another title, for comparing two results.\<close>

fun retitle :: "string \<Rightarrow> output_file \<Rightarrow> output_file" where
  "retitle t Untouched = Untouched"
| "retitle t Partial = Partial"
| "retitle t (Saved rep) = Saved (rep\<lparr>title := t\<rparr>)"

section \<open>The loop over the mappings\<close>

lemma analyze_group_other:
  "g \<noteq> fst entry \<Longrightarrow>
     fst (analyze_group dt df entry acc) g = fst acc g \<and> snd (analyze_group dt df entry acc) g = snd acc g"
  by (cases entry; cases acc) (simp add: analyze_group_def Let_def)

lemma fold_analyze_group_other:
  "g \<notin> fst ` set m \<Longrightarrow>
     fst (fold (analyze_group dt df) m acc) g = fst acc g \<and>
     snd (fold (analyze_group dt df) m acc) g = snd acc g"
proof (induction m arbitrary: acc)
  case Nil
  then show ?case by simp
next
  case (Cons e m)
  from Cons.prems have ne: "g \<noteq> fst e" and rest: "g \<notin> fst ` set m" by auto
  show ?case
    using Cons.IH [OF rest, of "analyze_group dt df e acc"] analyze_group_other [OF ne, of dt df acc]
    by simp
qed

lemma analyze_group_here:
  "fst (analyze_group dt df (g, al) acc) g =
     (if filter (\<lambda>r. Exercise_Name r \<in> set al) df = [] then fst acc g
      else Some (group_stats dt (exercise_frame dt (filter (\<lambda>r. Exercise_Name r \<in> set al) df)))) \<and>
   snd (analyze_group dt df (g, al) acc) g =
     (if filter (\<lambda>r. Exercise_Name r \<in> set al) df = [] then snd acc g
      else Some (exercise_frame dt (filter (\<lambda>r. Exercise_Name r \<in> set al) df)))"
  by (cases acc) (simp add: analyze_group_def Let_def)

lemma fold_analyze_group_here:
  "distinct (map fst m) \<Longrightarrow> (g, al) \<in> set m \<Longrightarrow>
     fst (fold (analyze_group dt df) m acc) g =
       (if filter (\<lambda>r. Exercise_Name r \<in> set al) df = [] then fst acc g
        else Some (group_stats dt (exercise_frame dt (filter (\<lambda>r. Exercise_Name r \<in> set al) df)))) \<and>
     snd (fold (analyze_group dt df) m acc) g =
       (if filter (\<lambda>r. Exercise_Name r \<in> set al) df = [] then snd acc g
        else Some (exercise_frame dt (filter (\<lambda>r. Exercise_Name r \<in> set al) df)))"
proof (induction m arbitrary: acc)
  case Nil
  then show ?case by simp
next
  case (Cons e m)
  show ?case
  proof (cases "e = (g, al)")
    case True
    with Cons.prems have "g \<notin> fst ` set m" by simp
    from fold_analyze_group_other [OF this, of dt df "analyze_group dt df e acc"]
      analyze_group_here [of dt df g al acc] True
    show ?thesis by simp
  next
    case False
    with Cons.prems have mem: "(g, al) \<in> set m" and d: "distinct (map fst m)" by auto
    from mem have "g \<in> fst ` set m" by force
    moreover from Cons.prems have "fst e \<notin> fst ` set m" by simp
    ultimately have ne: "g \<noteq> fst e" by blast
    from Cons.IH [OF d mem, of "analyze_group dt df e acc"] analyze_group_other [OF ne, of dt df acc]
    show ?thesis by simp
  qed
qed

lemma analyze_exercises_Table:
  "analyze_exercises (Table dt df) m y =
     Inr (fold (analyze_group dt (filter (\<lambda>r. dt_year (Date r) = y) df)) m (Map.empty, Map.empty))"
  by (simp add: analyze_exercises_def read_csv_def)

lemma filter_year_selection:
  "filter (\<lambda>r. Exercise_Name r \<in> set al) (filter (\<lambda>r. dt_year (Date r) = y) df) = selection df al y"
  by (simp add: selection_def conj_commute)

lemma analyze_exercises_group:
  assumes "distinct (map fst m)" and "(g, al) \<in> set m"
  shows "\<exists>all_stats all_dfs.
     analyze_exercises (Table dt df) m y = Inr (all_stats, all_dfs) \<and>
     all_stats g = (if selection df al y = [] then None
                    else Some (group_stats dt (exercise_frame dt (selection df al y)))) \<and>
     all_dfs g = (if selection df al y = [] then None
                    else Some (exercise_frame dt (selection df al y)))"
proof -
  obtain all_stats all_dfs where out:
    "fold (analyze_group dt (filter (\<lambda>r. dt_year (Date r) = y) df)) m (Map.empty, Map.empty)
       = (all_stats, all_dfs)"
    by (cases "fold (analyze_group dt (filter (\<lambda>r. dt_year (Date r) = y) df)) m (Map.empty, Map.empty)")
  from fold_analyze_group_here [OF assms, of dt "filter (\<lambda>r. dt_year (Date r) = y) df" "(Map.empty, Map.empty)"]
  have "all_stats g = (if selection df al y = [] then None
                    else Some (group_stats dt (exercise_frame dt (selection df al y))))"
    and "all_dfs g = (if selection df al y = [] then None
                    else Some (exercise_frame dt (selection df al y)))"
    unfolding filter_year_selection out by simp_all
  with out show ?thesis
    by (simp only: analyze_exercises_Table) blast
qed

lemma mset_exercise_frame: "mset (exercise_frame dt sel) = mset (map (with_volume dt) sel)"
  by (simp add: exercise_frame_def)

lemma length_exercise_frame: "length (exercise_frame dt sel) = length sel"
  by (simp add: exercise_frame_def)

lemma sum_list_frame:
  fixes f :: "volume_record \<Rightarrow> 'a::comm_monoid_add"
  shows "sum_list (map f (exercise_frame dt sel)) = sum_list (map (\<lambda>r. f (with_volume dt r)) sel)"
proof -
  have "mset (map f (exercise_frame dt sel)) = mset (map (\<lambda>r. f (with_volume dt r)) sel)"
    by (simp add: mset_exercise_frame image_mset.compositionality comp_def)
  then have "sum_mset (mset (map f (exercise_frame dt sel))) =
             sum_mset (mset (map (\<lambda>r. f (with_volume dt r)) sel))"
    by (rule arg_cong)
  then show ?thesis
    by (simp only: sum_mset_sum_list)
qed

lemma fold_analyze_group_values:
  "\<forall>g. (fst (fold (analyze_group dt df) m (Map.empty, Map.empty)) g = None \<and>
        snd (fold (analyze_group dt df) m (Map.empty, Map.empty)) g = None) \<or>
       (\<exists>al. (g, al) \<in> set m \<and> filter (\<lambda>r. Exercise_Name r \<in> set al) df \<noteq> [] \<and>
          fst (fold (analyze_group dt df) m (Map.empty, Map.empty)) g =
            Some (group_stats dt (exercise_frame dt (filter (\<lambda>r. Exercise_Name r \<in> set al) df))) \<and>
          snd (fold (analyze_group dt df) m (Map.empty, Map.empty)) g =
            Some (exercise_frame dt (filter (\<lambda>r. Exercise_Name r \<in> set al) df)))"
proof (induction m rule: rev_induct)
  case Nil
  then show ?case by simp
next
  case (snoc e m)
  obtain k al where e: "e = (k, al)" by (cases e)
  let ?acc = "fold (analyze_group dt df) m (Map.empty, Map.empty)"
  let ?sel = "filter (\<lambda>r. Exercise_Name r \<in> set al) df"
  show ?case
  proof
    fix g
    show "(fst (fold (analyze_group dt df) (m @ [e]) (Map.empty, Map.empty)) g = None \<and>
        snd (fold (analyze_group dt df) (m @ [e]) (Map.empty, Map.empty)) g = None) \<or>
       (\<exists>al. (g, al) \<in> set (m @ [e]) \<and> filter (\<lambda>r. Exercise_Name r \<in> set al) df \<noteq> [] \<and>
          fst (fold (analyze_group dt df) (m @ [e]) (Map.empty, Map.empty)) g =
            Some (group_stats dt (exercise_frame dt (filter (\<lambda>r. Exercise_Name r \<in> set al) df))) \<and>
          snd (fold (analyze_group dt df) (m @ [e]) (Map.empty, Map.empty)) g =
            Some (exercise_frame dt (filter (\<lambda>r. Exercise_Name r \<in> set al) df)))"
    proof (cases "g = k \<and> ?sel \<noteq> []")
      case True
      with analyze_group_here [of dt df k al ?acc] e show ?thesis
        by auto
    next
      case False
      have same: "fst (analyze_group dt df e ?acc) g = fst ?acc g \<and>
                  snd (analyze_group dt df e ?acc) g = snd ?acc g"
      proof (cases "g = k")
        case True
        with False have "?sel = []" by simp
        with analyze_group_here [of dt df k al ?acc] True e show ?thesis by simp
      next
        case False
        with analyze_group_other [of g e dt df ?acc] e show ?thesis by simp
      qed
      from snoc.IH have "(fst ?acc g = None \<and> snd ?acc g = None) \<or>
       (\<exists>al. (g, al) \<in> set m \<and> filter (\<lambda>r. Exercise_Name r \<in> set al) df \<noteq> [] \<and>
          fst ?acc g =
            Some (group_stats dt (exercise_frame dt (filter (\<lambda>r. Exercise_Name r \<in> set al) df))) \<and>
          snd ?acc g =
            Some (exercise_frame dt (filter (\<lambda>r. Exercise_Name r \<in> set al) df)))"
        by (rule spec)
      with same show ?thesis by auto
    qed
  qed
qed

text \<open>Every entry of the two dictionaries comes from a group with a non-empty selection.\<close>

lemma analyze_exercises_values:
  assumes "analyze_exercises fs m y = Inr (all_stats, all_dfs)"
  shows "(all_stats g = None \<and> all_dfs g = None) \<or>
         (\<exists>dt df al. fs = Table dt df \<and> (g, al) \<in> set m \<and> selection df al y \<noteq> [] \<and>
            all_stats g = Some (group_stats dt (exercise_frame dt (selection df al y))) \<and>
            all_dfs g = Some (exercise_frame dt (selection df al y)))"
proof -
  from assms obtain dt df where fs: "fs = Table dt df"
    by (cases fs) (simp_all add: analyze_exercises_def read_csv_def)
  let ?dfy = "filter (\<lambda>r. dt_year (Date r) = y) df"
  from assms fs have out: "fold (analyze_group dt ?dfy) m (Map.empty, Map.empty) = (all_stats, all_dfs)"
    by (simp add: analyze_exercises_Table)
  from fold_analyze_group_values [of dt ?dfy m] have
    "(all_stats g = None \<and> all_dfs g = None) \<or>
       (\<exists>al. (g, al) \<in> set m \<and> filter (\<lambda>r. Exercise_Name r \<in> set al) ?dfy \<noteq> [] \<and>
          all_stats g = Some (group_stats dt (exercise_frame dt (filter (\<lambda>r. Exercise_Name r \<in> set al) ?dfy))) \<and>
          all_dfs g = Some (exercise_frame dt (filter (\<lambda>r. Exercise_Name r \<in> set al) ?dfy)))"
    unfolding out by simp
  then show ?thesis
    unfolding filter_year_selection using fs by blast
qed

lemma training_days_pos:
  assumes "sel \<noteq> []"
  shows "1 \<le> training_days (group_stats dt (exercise_frame dt sel))"
proof -
  let ?days = "remdups (map (\<lambda>r. dt_date (Date r)) (exercise_frame dt sel))"
  from assms have "exercise_frame dt sel \<noteq> []"
    using length_exercise_frame [of dt sel] by auto
  then have "?days \<noteq> []"
    by simp
  then have "1 \<le> length ?days"
    by (cases ?days) simp_all
  moreover have "training_days (group_stats dt (exercise_frame dt sel)) = length ?days"
    by (simp add: group_stats_def)
  ultimately show ?thesis
    by (simp only:)
qed

lemma training_days_le_sets:
  "training_days (group_stats dt fr) \<le> total_sets (group_stats dt fr)"
proof -
  have "length (remdups (map (\<lambda>r. dt_date (Date r)) fr)) \<le> length (map (\<lambda>r. dt_date (Date r)) fr)"
    by (rule length_remdups_leq)
  then show ?thesis by (simp add: group_stats_def)
qed

lemma set_exercise_frame: "set (exercise_frame dt sel) = with_volume dt ` set sel"
  by (simp add: exercise_frame_def)

lemma Date_with_volume: "Date (with_volume dt r) = Date r"
  by (simp add: with_volume_def)

lemma training_days_single:
  assumes "sel \<noteq> []" and "\<forall>r\<in>set sel. dt_date (Date r) = d"
  shows "training_days (group_stats dt (exercise_frame dt sel)) = 1"
proof -
  have "set (map (\<lambda>r. dt_date (Date r)) (exercise_frame dt sel)) = {d}"
    using assms by (auto simp: set_exercise_frame Date_with_volume image_iff neq_Nil_conv)
  then have "card (set (map (\<lambda>r. dt_date (Date r)) (exercise_frame dt sel))) = 1"
    by simp
  then show ?thesis
    by (simp add: group_stats_def length_remdups_card_conv del: set_map)
qed

lemma sorted_exercise_frame: "sorted (map Date (exercise_frame dt sel))"
  by (simp add: exercise_frame_def)

lemma table_no_division_by_zero:
  "(\<And>g s. stats g = Some s \<Longrightarrow> 1 \<le> training_days s) \<Longrightarrow>
     \<exists>rows. table_data_rows stats exercises = Inr rows"
proof (induction exercises)
  case Nil
  then show ?case by simp
next
  case (Cons ex exercises)
  from Cons.IH Cons.prems obtain rows where rows: "table_data_rows stats exercises = Inr rows"
    by blast
  show ?case
  proof (cases "stats ex")
    case None
    with rows show ?thesis by simp
  next
    case (Some s)
    with Cons.prems have "training_days s \<noteq> 0" by fastforce
    with Some rows show ?thesis by (simp add: truediv_def)
  qed
qed

lemma bars_no_division_by_zero:
  "(\<And>g s. stats g = Some s \<Longrightarrow> 1 \<le> training_days s) \<Longrightarrow>
     \<exists>bars. sets_per_session stats exercises = Inr bars"
proof (induction exercises)
  case Nil
  then show ?case by simp
next
  case (Cons ex exercises)
  from Cons.IH Cons.prems obtain bars where bars: "sets_per_session stats exercises = Inr bars"
    by blast
  show ?case
  proof (cases "stats ex")
    case None
    with bars show ?thesis by simp
  next
    case (Some s)
    with Cons.prems have "training_days s \<noteq> 0" by fastforce
    with Some bars show ?thesis by (simp add: truediv_def)
  qed
qed

section \<open>Arithmetic of int64 columns\<close>

lemma wrap64_in_range: "in_int64 i \<Longrightarrow> wrap64 i = i"
  by (simp add: wrap64_def in_int64_def)

lemma of_int_sum_list_map:
  "(of_int (sum_list (map f xs)) :: rat) = sum_list (map (\<lambda>x. of_int (f x)) xs)"
  by (induction xs) simp_all

lemma Volume_with_volume:
  "Volume (with_volume dt r) =
     (case dt of
        Int64 \<Rightarrow> of_int (wrap64 (\<lfloor>Weight r\<rfloor> * Reps r))
      | Float64 \<Rightarrow> Weight r * of_int (Reps r))"
  by (simp add: with_volume_def)

lemma total_volume_frame:
  "total_volume (group_stats dt (exercise_frame dt sel)) =
     (case dt of
        Int64 \<Rightarrow> of_int (wrap64 (\<Sum>r\<leftarrow>sel. wrap64 (\<lfloor>Weight r\<rfloor> * Reps r)))
      | Float64 \<Rightarrow> (\<Sum>r\<leftarrow>sel. Weight r * of_int (Reps r)))"
proof (cases dt)
  case Int64
  have "(\<Sum>v\<leftarrow>exercise_frame dt sel. \<lfloor>Volume v\<rfloor>) = (\<Sum>r\<leftarrow>sel. \<lfloor>Volume (with_volume dt r)\<rfloor>)"
    by (rule sum_list_frame)
  then show ?thesis
    using Int64 by (simp add: group_stats_def series_sum_def Volume_with_volume comp_def)
next
  case Float64
  have "(\<Sum>v\<leftarrow>exercise_frame dt sel. Volume v) = (\<Sum>r\<leftarrow>sel. Volume (with_volume dt r))"
    by (rule sum_list_frame)
  then show ?thesis
    using Float64 by (simp add: group_stats_def series_sum_def Volume_with_volume)
qed

lemma total_reps_frame:
  "total_reps (group_stats dt (exercise_frame dt sel)) = wrap64 (\<Sum>r\<leftarrow>sel. Reps r)"
proof -
  have "(\<Sum>v\<leftarrow>exercise_frame dt sel. Reps v) = (\<Sum>r\<leftarrow>sel. Reps (with_volume dt r))"
    by (rule sum_list_frame)
  then show ?thesis
    by (simp add: group_stats_def with_volume_def)
qed

lemma int64_volume_exact:
  assumes "\<forall>r\<in>set sel. Weight r = of_int \<lfloor>Weight r\<rfloor> \<and> in_int64 (\<lfloor>Weight r\<rfloor> * Reps r)"
    and "in_int64 (\<Sum>r\<leftarrow>sel. \<lfloor>Weight r\<rfloor> * Reps r)"
  shows "(of_int (wrap64 (\<Sum>r\<leftarrow>sel. wrap64 (\<lfloor>Weight r\<rfloor> * Reps r))) :: rat) =
         (\<Sum>r\<leftarrow>sel. Weight r * of_int (Reps r))"
proof -
  from assms(1) have "map (\<lambda>r. wrap64 (\<lfloor>Weight r\<rfloor> * Reps r)) sel =
      map (\<lambda>r. \<lfloor>Weight r\<rfloor> * Reps r) sel"
    by (simp add: wrap64_in_range)
  then have "(\<Sum>r\<leftarrow>sel. wrap64 (\<lfloor>Weight r\<rfloor> * Reps r)) = (\<Sum>r\<leftarrow>sel. \<lfloor>Weight r\<rfloor> * Reps r)"
    by (rule arg_cong)
  then have wrapped: "wrap64 (\<Sum>r\<leftarrow>sel. wrap64 (\<lfloor>Weight r\<rfloor> * Reps r)) =
      (\<Sum>r\<leftarrow>sel. \<lfloor>Weight r\<rfloor> * Reps r)"
    using wrap64_in_range [OF assms(2)] by (simp only:)
  have "map (\<lambda>r. (of_int (\<lfloor>Weight r\<rfloor> * Reps r) :: rat)) sel =
      map (\<lambda>r. Weight r * of_int (Reps r)) sel"
  proof (rule map_cong [OF refl])
    fix r assume "r \<in> set sel"
    with assms(1) have "Weight r = of_int \<lfloor>Weight r\<rfloor>" by blast
    then have "of_int \<lfloor>Weight r\<rfloor> * (of_int (Reps r) :: rat) = Weight r * of_int (Reps r)"
      by simp
    then show "(of_int (\<lfloor>Weight r\<rfloor> * Reps r) :: rat) = Weight r * of_int (Reps r)"
      by simp
  qed
  then have products: "(\<Sum>r\<leftarrow>sel. (of_int (\<lfloor>Weight r\<rfloor> * Reps r) :: rat)) =
      (\<Sum>r\<leftarrow>sel. Weight r * of_int (Reps r))"
    by (rule arg_cong)
  have "(of_int (\<Sum>r\<leftarrow>sel. \<lfloor>Weight r\<rfloor> * Reps r) :: rat) =
      (\<Sum>r\<leftarrow>sel. of_int (\<lfloor>Weight r\<rfloor> * Reps r))"
    by (rule of_int_sum_list_map)
  with wrapped products show ?thesis
    by (simp only:)
qed

section \<open>The example of the specification, computed\<close>

lemma analyze_example:
  "analyze_exercises (Table dt example_records) exercise_mappings 2024 =
     Inr ([''Squat (Barbell)'' \<mapsto>
             \<lparr>total_volume = 1365, total_sets = 3, total_reps = 13, avg_weight = Some 105,
              max_weight = Some 110, training_days = 2\<rparr>],
          [''Squat (Barbell)'' \<mapsto> map (with_volume dt) example_records])"
  by (cases dt)
    (simp_all add: analyze_exercises_def read_csv_def analyze_group_def exercise_mappings_def
      example_records_def dt_year_def dt_date_def group_stats_def exercise_frame_def
      with_volume_def series_sum_def wrap64_def numeral_2_eq_2 numeral_3_eq_3)

lemma analyze_example_rev:
  "analyze_exercises (Table dt (rev example_records)) exercise_mappings 2024 =
     Inr ([''Squat (Barbell)'' \<mapsto>
             \<lparr>total_volume = 1365, total_sets = 3, total_reps = 13, avg_weight = Some 105,
              max_weight = Some 110, training_days = 2\<rparr>],
          [''Squat (Barbell)'' \<mapsto>
             map (with_volume dt)
               [example_records ! 1, example_records ! 0, example_records ! 2]])"
  by (cases dt)
    (simp_all add: analyze_exercises_def read_csv_def analyze_group_def exercise_mappings_def
      example_records_def dt_year_def dt_date_def group_stats_def exercise_frame_def
      with_volume_def series_sum_def wrap64_def numeral_2_eq_2 numeral_3_eq_3)

section \<open>Library calls and sequencing\<close>

lemma then_do_Inr: "then_do (Inr x) f = f x"
  by (simp add: then_do_def)

lemma then_do_Inl: "then_do (Inl e) f = Inl e"
  by (simp add: then_do_def)

lemma then_do_eq_Inr:
  "then_do r f = Inr y \<longleftrightarrow> (\<exists>x. r = Inr x \<and> f x = Inr y)"
  by (cases r) (simp_all add: then_do_def)

lemma then_do_eq_Inl:
  "then_do r f = Inl e \<longleftrightarrow> r = Inl e \<or> (\<exists>x. r = Inr x \<and> f x = Inl e)"
  by (cases r) (simp_all add: then_do_def)

lemma call_eq_Inl: "call env n = Inl e \<longleftrightarrow> fault env = Some (n, e)"
  by (auto simp: call_def split: option.splits if_splits)

lemma calls_eq_Inl: "calls env ns = Inl e \<Longrightarrow> \<exists>n. fault env = Some (n, e)"
  by (induction ns) (auto simp: call_eq_Inl split: sum.splits)

lemma call_no_fault: "fault env = None \<Longrightarrow> call env n = Inr ()"
  by (simp add: call_def)

lemma calls_no_fault: "fault env = None \<Longrightarrow> calls env ns = Inr ()"
  by (induction ns) (simp_all add: call_no_fault)

text \<open>The panels and the report read the environment through its fault only.\<close>

lemma call_cong_fault:
  assumes "fault env = fault env'"
  shows "call env = call env'"
  by (rule ext) (simp add: call_def assms)

lemma calls_cong_fault:
  assumes "fault env = fault env'"
  shows "calls env = calls env'"
proof (rule ext)
  fix ns
  show "calls env ns = calls env' ns"
    by (induction ns) (simp_all add: call_cong_fault [OF assms] split: sum.splits)
qed

lemma panels_cong_fault:
  assumes "fault env = fault env'"
  shows "create_detailed_stats_table env = create_detailed_stats_table env'"
    and "create_training_days_plot env = create_training_days_plot env'"
    and "create_sets_per_session_plot env = create_sets_per_session_plot env'"
    and "create_volume_plot env = create_volume_plot env'"
    and "create_weight_progression_plot env = create_weight_progression_plot env'"
  by (simp_all only: fun_eq_iff create_detailed_stats_table_def create_training_days_plot_def
        create_sets_per_session_plot_def create_volume_plot_def
        create_weight_progression_plot_def
        calls_cong_fault [OF assms] call_cong_fault [OF assms] simp_thms)

lemma report_cong:
  assumes "fault env = fault env'" and "partial_write env = partial_write env'"
    and "analyze_exercises (data_file env) m default_year =
         analyze_exercises (data_file env') m default_year"
  shows "create_comprehensive_report env m year = create_comprehensive_report env' m year"
  by (simp only: create_comprehensive_report_def assms(2,3)
      calls_cong_fault [OF assms(1)] call_cong_fault [OF assms(1)]
      panels_cong_fault [OF assms(1)])

section \<open>Totals of a group\<close>

text \<open>
  C1, as the program has it. For every group of the mappings whose selection (the records
  with the exercise name in the group's alias set and the date in the target year) is not
  empty, \<^verbatim>\<open>analyze_exercises\<close> returns statistics for the group in which \<^verbatim>\<open>total_sets\<close> is
  the number of selected records; \<^verbatim>\<open>total_reps\<close> is the sum of their reps as an int64,
  that is wrapped into the int64 range, and so the sum itself when the sum lies in that
  range; \<^verbatim>\<open>total_volume\<close> is the sum of weight times reps over them when \<^verbatim>\<open>Weight\<close> is a
  float64 column, and when it is an int64 column the sum of the int64 products as an
  int64, which is the sum of weight times reps when every product and their sum lie in
  the int64 range.
\<close>

theorem analyze_exercises_totals:
  assumes "distinct (map fst m)" and "(g, al) \<in> set m" and "selection df al y \<noteq> []"
  shows "\<exists>all_stats all_dfs s.
     analyze_exercises (Table dt df) m y = Inr (all_stats, all_dfs) \<and>
     all_stats g = Some s \<and>
     total_sets s = length (selection df al y) \<and>
     total_reps s = wrap64 (\<Sum>r\<leftarrow>selection df al y. Reps r) \<and>
     (in_int64 (\<Sum>r\<leftarrow>selection df al y. Reps r) \<longrightarrow>
        total_reps s = (\<Sum>r\<leftarrow>selection df al y. Reps r)) \<and>
     total_volume s =
       (case dt of
          Int64 \<Rightarrow>
            of_int (wrap64 (\<Sum>r\<leftarrow>selection df al y. wrap64 (\<lfloor>Weight r\<rfloor> * Reps r)))
        | Float64 \<Rightarrow> (\<Sum>r\<leftarrow>selection df al y. Weight r * of_int (Reps r))) \<and>
     ((dt = Int64 \<longrightarrow>
         (\<forall>r\<in>set (selection df al y).
            Weight r = of_int \<lfloor>Weight r\<rfloor> \<and> in_int64 (\<lfloor>Weight r\<rfloor> * Reps r)) \<and>
         in_int64 (\<Sum>r\<leftarrow>selection df al y. \<lfloor>Weight r\<rfloor> * Reps r)) \<longrightarrow>
        total_volume s = (\<Sum>r\<leftarrow>selection df al y. Weight r * of_int (Reps r)))"
proof -
  let ?sel = "selection df al y"
  let ?s = "group_stats dt (exercise_frame dt ?sel)"
  from analyze_exercises_group [OF assms(1,2), of dt df y] assms(3)
  obtain all_stats all_dfs where
    out: "analyze_exercises (Table dt df) m y = Inr (all_stats, all_dfs)" and
    g: "all_stats g = Some ?s"
    by auto
  have sets: "total_sets ?s = length ?sel"
    by (simp add: group_stats_def length_exercise_frame)
  have reps: "total_reps ?s = wrap64 (\<Sum>r\<leftarrow>?sel. Reps r)"
    by (rule total_reps_frame)
  have reps_exact: "total_reps ?s = (\<Sum>r\<leftarrow>?sel. Reps r)" if "in_int64 (\<Sum>r\<leftarrow>?sel. Reps r)"
    using that by (simp add: reps wrap64_in_range)
  have vol: "total_volume ?s =
       (case dt of
          Int64 \<Rightarrow> of_int (wrap64 (\<Sum>r\<leftarrow>?sel. wrap64 (\<lfloor>Weight r\<rfloor> * Reps r)))
        | Float64 \<Rightarrow> (\<Sum>r\<leftarrow>?sel. Weight r * of_int (Reps r)))"
    by (rule total_volume_frame)
  have vol_exact: "total_volume ?s = (\<Sum>r\<leftarrow>?sel. Weight r * of_int (Reps r))"
    if "dt = Int64 \<longrightarrow>
         (\<forall>r\<in>set ?sel. Weight r = of_int \<lfloor>Weight r\<rfloor> \<and> in_int64 (\<lfloor>Weight r\<rfloor> * Reps r)) \<and>
         in_int64 (\<Sum>r\<leftarrow>?sel. \<lfloor>Weight r\<rfloor> * Reps r)"
  proof (cases dt)
    case Int64
    with that int64_volume_exact [of ?sel] vol show ?thesis
      by simp
  next
    case Float64
    with vol show ?thesis by simp
  qed
  from out g sets reps reps_exact vol vol_exact show ?thesis
    by blast
qed

theorem analyze_exercises_totals_witness:
  "distinct (map fst exercise_mappings) \<and>
   (''Squat (Barbell)'', [''Squat (Barbell)'']) \<in> set exercise_mappings \<and>
   selection example_records [''Squat (Barbell)''] 2024 \<noteq> [] \<and>
   in_int64 (\<Sum>r\<leftarrow>example_records. Reps r) \<and>
   list_all (\<lambda>r. Weight r = of_int \<lfloor>Weight r\<rfloor> \<and> in_int64 (\<lfloor>Weight r\<rfloor> * Reps r))
     example_records \<and>
   in_int64 (\<Sum>r\<leftarrow>example_records. \<lfloor>Weight r\<rfloor> * Reps r) \<and>
   (\<exists>all_stats all_dfs s.
      analyze_exercises (Table Int64 example_records) exercise_mappings 2024 =
        Inr (all_stats, all_dfs) \<and>
      all_stats ''Squat (Barbell)'' = Some s \<and>
      total_sets s = 3 \<and> total_reps s = 13 \<and> total_volume s = 1365)"
proof -
  have sel: "selection example_records [''Squat (Barbell)''] 2024 = example_records"
    by (simp add: selection_def example_records_def dt_year_def)
  have h1: "distinct (map fst exercise_mappings)"
    by (simp add: exercise_mappings_def)
  have h2: "(''Squat (Barbell)'', [''Squat (Barbell)'']) \<in> set exercise_mappings"
    by (simp add: exercise_mappings_def)
  have h3: "selection example_records [''Squat (Barbell)''] 2024 \<noteq> []"
    by (simp add: sel) (simp add: example_records_def)
  have n: "length example_records = 3"
    and r: "(\<Sum>r\<leftarrow>example_records. Reps r) = 13"
    and v: "(\<Sum>r\<leftarrow>example_records. Weight r * of_int (Reps r)) = 1365"
    and p: "(\<Sum>r\<leftarrow>example_records. \<lfloor>Weight r\<rfloor> * Reps r) = 1365"
    by (simp_all add: example_records_def)
  have r_ok: "in_int64 (\<Sum>r\<leftarrow>example_records. Reps r)"
    by (simp add: r in_int64_def)
  have w_ok: "list_all (\<lambda>r. Weight r = of_int \<lfloor>Weight r\<rfloor> \<and> in_int64 (\<lfloor>Weight r\<rfloor> * Reps r))
     example_records"
    by (simp add: example_records_def in_int64_def)
  have v_ok: "in_int64 (\<Sum>r\<leftarrow>example_records. \<lfloor>Weight r\<rfloor> * Reps r)"
    by (simp add: p in_int64_def)
  from w_ok have w_all: "\<forall>r\<in>set example_records.
      Weight r = of_int \<lfloor>Weight r\<rfloor> \<and> in_int64 (\<lfloor>Weight r\<rfloor> * Reps r)"
    by (simp only: list_all_iff)
  from analyze_exercises_totals [OF h1 h2 h3, of Int64]
  obtain all_stats all_dfs s where
    out: "analyze_exercises (Table Int64 example_records) exercise_mappings 2024 =
        Inr (all_stats, all_dfs)"
    and s: "all_stats ''Squat (Barbell)'' = Some s"
    and sets: "total_sets s = length example_records"
    and reps: "in_int64 (\<Sum>r\<leftarrow>example_records. Reps r) \<longrightarrow>
        total_reps s = (\<Sum>r\<leftarrow>example_records. Reps r)"
    and vol: "(Int64 = Int64 \<longrightarrow>
         (\<forall>r\<in>set example_records.
            Weight r = of_int \<lfloor>Weight r\<rfloor> \<and> in_int64 (\<lfloor>Weight r\<rfloor> * Reps r)) \<and>
         in_int64 (\<Sum>r\<leftarrow>example_records. \<lfloor>Weight r\<rfloor> * Reps r)) \<longrightarrow>
        total_volume s = (\<Sum>r\<leftarrow>example_records. Weight r * of_int (Reps r))"
    unfolding sel by blast
  from sets have "total_sets s = 3" by (simp only: n)
  moreover from reps r_ok have "total_reps s = (\<Sum>r\<leftarrow>example_records. Reps r)"
    by blast
  then have "total_reps s = 13" by (simp only: r)
  moreover from vol w_all v_ok
  have "total_volume s = (\<Sum>r\<leftarrow>example_records. Weight r * of_int (Reps r))"
    by blast
  then have "total_volume s = 1365" by (simp only: v)
  ultimately have "\<exists>all_stats all_dfs s.
      analyze_exercises (Table Int64 example_records) exercise_mappings 2024 =
        Inr (all_stats, all_dfs) \<and>
      all_stats ''Squat (Barbell)'' = Some s \<and>
      total_sets s = 3 \<and> total_reps s = 13 \<and> total_volume s = 1365"
    using out s by blast
  with h1 h2 h3 r_ok w_ok v_ok show ?thesis by blast
qed

text \<open>
  C1 as the specification words it gives the sums themselves. With reps of \<open>2 ^ 63 - 1\<close>
  and 1, whose sum is \<open>2 ^ 63\<close>, \<^verbatim>\<open>total_reps\<close> is \<open>- 2 ^ 63\<close>; with integer weights of 100
  the two products are \<open>- 100\<close> and 100 as int64, and \<^verbatim>\<open>total_volume\<close> is 0.
\<close>

theorem int64_sum_wraps_counterexample:
  "analyze_exercises
     (Table Int64
        [\<lparr>Date = ((2024, 1, 1), 0), Exercise_Name = ''Squat (Barbell)'', Weight = 100,
          Reps = 9223372036854775807\<rparr>,
         \<lparr>Date = ((2024, 1, 1), 0), Exercise_Name = ''Squat (Barbell)'', Weight = 100,
          Reps = 1\<rparr>])
     exercise_mappings 2024 =
   Inr ([''Squat (Barbell)'' \<mapsto>
           \<lparr>total_volume = 0, total_sets = 2, total_reps = - 9223372036854775808,
            avg_weight = Some 100, max_weight = Some 100, training_days = 1\<rparr>],
        [''Squat (Barbell)'' \<mapsto>
           [\<lparr>Date = ((2024, 1, 1), 0), Exercise_Name = ''Squat (Barbell)'', Weight = 100,
             Reps = 9223372036854775807, Volume = - 100\<rparr>,
            \<lparr>Date = ((2024, 1, 1), 0), Exercise_Name = ''Squat (Barbell)'', Weight = 100,
             Reps = 1, Volume = 100\<rparr>]])"
  by (simp add: analyze_exercises_def read_csv_def analyze_group_def exercise_mappings_def
      dt_year_def dt_date_def group_stats_def exercise_frame_def with_volume_def
      series_sum_def wrap64_def numeral_2_eq_2)

section \<open>Groups without records\<close>

text \<open>
  C2. A group of the mappings with no matching record in the target year is a key of
  neither dictionary that \<^verbatim>\<open>analyze_exercises\<close> returns, and the call returns normally.
\<close>

theorem analyze_exercises_empty_group_absent:
  assumes "distinct (map fst m)" and "(g, al) \<in> set m" and "selection df al y = []"
  shows "\<exists>all_stats all_dfs.
     analyze_exercises (Table dt df) m y = Inr (all_stats, all_dfs) \<and>
     g \<notin> dom all_stats \<and> g \<notin> dom all_dfs"
  using analyze_exercises_group [OF assms(1,2), of dt df y] assms(3)
  by (auto simp: dom_def)

theorem analyze_exercises_empty_group_absent_witness:
  "distinct (map fst exercise_mappings) \<and>
   (''Deadlift (Barbell)'', [''Deadlift (Barbell)'', ''Deadlift Old Data '']) \<in> set exercise_mappings \<and>
   selection example_records [''Deadlift (Barbell)'', ''Deadlift Old Data ''] 2024 = [] \<and>
   (\<exists>all_stats all_dfs.
      analyze_exercises (Table Int64 example_records) exercise_mappings 2024 = Inr (all_stats, all_dfs) \<and>
      ''Deadlift (Barbell)'' \<notin> dom all_stats \<and> ''Deadlift (Barbell)'' \<notin> dom all_dfs)"
proof -
  have h1: "distinct (map fst exercise_mappings)"
    by (simp add: exercise_mappings_def)
  have h2: "(''Deadlift (Barbell)'', [''Deadlift (Barbell)'', ''Deadlift Old Data ''])
              \<in> set exercise_mappings"
    by (simp add: exercise_mappings_def)
  have h3: "selection example_records [''Deadlift (Barbell)'', ''Deadlift Old Data ''] 2024 = []"
    by (simp add: selection_def example_records_def)
  from analyze_exercises_empty_group_absent [OF h1 h2 h3] h1 h2 h3 show ?thesis
    by blast
qed

section \<open>Training days and the division by them\<close>

text \<open>
  C5. Every group that \<^verbatim>\<open>analyze_exercises\<close> puts into the statistics has at least one
  training day, so the divisions \<^verbatim>\<open>total_sets / training_days\<close> of the table (line 67)
  and of the bar plot (line 100) raise no \<^verbatim>\<open>ZeroDivisionError\<close>: the two loops that divide
  return their rows, whatever list of exercises they are given, and an exception that
  leaves one of the two functions is the \<^verbatim>\<open>IndexError\<close> of the empty table or comes from
  a library call.
\<close>

theorem sets_per_session_no_division_by_zero:
  assumes "analyze_exercises fs m y = Inr (all_stats, all_dfs)"
  shows "(\<forall>g s. all_stats g = Some s \<longrightarrow> 1 \<le> training_days s) \<and>
         (\<exists>table_data. table_data_rows all_stats exercises = Inr table_data) \<and>
         (\<exists>bars. sets_per_session all_stats exercises = Inr bars) \<and>
         (\<forall>env e. create_detailed_stats_table env all_stats exercises = Inl e \<longrightarrow>
            e = PyExc IndexError ''list index out of range'' \<or> (\<exists>n. fault env = Some (n, e))) \<and>
         (\<forall>env e. create_sets_per_session_plot env all_stats exercises = Inl e \<longrightarrow>
            (\<exists>n. fault env = Some (n, e)))"
proof -
  have pos: "1 \<le> training_days s" if "all_stats g = Some s" for g s
    using analyze_exercises_values [OF assms, of g] that training_days_pos
    by auto
  from pos table_no_division_by_zero [of all_stats exercises]
  obtain table_data where rows: "table_data_rows all_stats exercises = Inr table_data"
    by blast
  from pos bars_no_division_by_zero [of all_stats exercises]
  obtain bars where bars: "sets_per_session all_stats exercises = Inr bars"
    by blast
  have table: "e = PyExc IndexError ''list index out of range'' \<or> (\<exists>n. fault env = Some (n, e))"
    if "create_detailed_stats_table env all_stats exercises = Inl e" for env e
    using that rows calls_eq_Inl [of env _ e]
    by (auto simp: create_detailed_stats_table_def then_do_eq_Inl call_eq_Inl
        simp del: calls.simps split: if_splits)
  have plot: "\<exists>n. fault env = Some (n, e)"
    if "create_sets_per_session_plot env all_stats exercises = Inl e" for env e
    using that bars calls_eq_Inl [of env _ e]
    by (auto simp: create_sets_per_session_plot_def then_do_eq_Inl simp del: calls.simps)
  from pos rows bars table plot show ?thesis
    by blast
qed

theorem sets_per_session_no_division_by_zero_witness:
  "analyze_exercises (Table Int64 example_records) exercise_mappings 2024 =
     Inr ([''Squat (Barbell)'' \<mapsto>
             \<lparr>total_volume = 1365, total_sets = 3, total_reps = 13, avg_weight = Some 105,
              max_weight = Some 110, training_days = 2\<rparr>],
          [''Squat (Barbell)'' \<mapsto> map (with_volume Int64) example_records]) \<and>
   (1::nat) \<le> 2 \<and>
   (\<exists>table_data.
      table_data_rows
        [''Squat (Barbell)'' \<mapsto>
             \<lparr>total_volume = 1365, total_sets = 3, total_reps = 13, avg_weight = Some 105,
              max_weight = Some 110, training_days = 2\<rparr>]
        (map fst exercise_mappings) = Inr table_data) \<and>
   (\<exists>bars.
      sets_per_session
        [''Squat (Barbell)'' \<mapsto>
             \<lparr>total_volume = 1365, total_sets = 3, total_reps = 13, avg_weight = Some 105,
              max_weight = Some 110, training_days = 2\<rparr>]
        (map fst exercise_mappings) = Inr bars)"
  using sets_per_session_no_division_by_zero [OF analyze_example, of "map fst exercise_mappings"]
    analyze_example
  by simp

text \<open>
  C7. For every group in the statistics, \<^verbatim>\<open>training_days\<close> is at most \<^verbatim>\<open>total_sets\<close>, and
  it is 1 when all the records of the group's selection have the same calendar date.
\<close>

theorem training_days_bounds:
  assumes "distinct (map fst m)" and "(g, al) \<in> set m"
    and "analyze_exercises (Table dt df) m y = Inr (all_stats, all_dfs)"
    and "all_stats g = Some s"
  shows "training_days s \<le> total_sets s \<and>
         ((\<forall>r\<in>set (selection df al y). dt_date (Date r) = d) \<longrightarrow> training_days s = 1)"
proof -
  from analyze_exercises_group [OF assms(1,2), of dt df y] assms(3,4)
  have ne: "selection df al y \<noteq> []"
    and s: "s = group_stats dt (exercise_frame dt (selection df al y))"
    by (auto split: if_splits)
  from s have "training_days s \<le> total_sets s"
    by (simp only: training_days_le_sets)
  moreover have "training_days s = 1" if "\<forall>r\<in>set (selection df al y). dt_date (Date r) = d"
    using training_days_single [OF ne that] s by simp
  ultimately show ?thesis by blast
qed

theorem training_days_bounds_witness:
  "distinct (map fst exercise_mappings) \<and>
   (''Squat (Barbell)'', [''Squat (Barbell)'']) \<in> set exercise_mappings \<and>
   analyze_exercises (Table Int64 (take 2 example_records)) exercise_mappings 2024 =
     Inr ([''Squat (Barbell)'' \<mapsto>
             \<lparr>total_volume = 815, total_sets = 2, total_reps = 8, avg_weight = Some (205 / 2),
              max_weight = Some 105, training_days = 1\<rparr>],
          [''Squat (Barbell)'' \<mapsto> map (with_volume Int64) (take 2 example_records)]) \<and>
   map (\<lambda>r. dt_date (Date r)) (selection (take 2 example_records) [''Squat (Barbell)''] 2024) =
     [(2024, 1, 1), (2024, 1, 1)] \<and>
   (1::nat) \<le> 2 \<and>
   training_days \<lparr>total_volume = 815, total_sets = 2, total_reps = 8, avg_weight = Some (205 / 2),
              max_weight = Some 105, training_days = 1\<rparr> = 1"
proof -
  let ?s = "\<lparr>total_volume = 815, total_sets = 2, total_reps = 8, avg_weight = Some (205 / 2),
              max_weight = Some 105, training_days = 1\<rparr>"
  have h1: "distinct (map fst exercise_mappings)"
    by (simp add: exercise_mappings_def)
  have h2: "(''Squat (Barbell)'', [''Squat (Barbell)'']) \<in> set exercise_mappings"
    by (simp add: exercise_mappings_def)
  have h3: "analyze_exercises (Table Int64 (take 2 example_records)) exercise_mappings 2024 =
     Inr ([''Squat (Barbell)'' \<mapsto> ?s],
          [''Squat (Barbell)'' \<mapsto> map (with_volume Int64) (take 2 example_records)])"
    by (simp add: analyze_exercises_def read_csv_def analyze_group_def exercise_mappings_def
        example_records_def dt_year_def dt_date_def group_stats_def exercise_frame_def
        with_volume_def series_sum_def wrap64_def numeral_2_eq_2)
  have h4: "[''Squat (Barbell)'' \<mapsto> ?s] ''Squat (Barbell)'' = Some ?s"
    by simp
  have dates: "map (\<lambda>r. dt_date (Date r))
       (selection (take 2 example_records) [''Squat (Barbell)''] 2024) =
     [(2024, 1, 1), (2024, 1, 1)]"
    by (simp add: selection_def example_records_def dt_year_def dt_date_def numeral_2_eq_2)
  then have h5: "\<forall>r\<in>set (selection (take 2 example_records) [''Squat (Barbell)''] 2024).
      dt_date (Date r) = (2024, 1, 1)"
    by (simp add: selection_def example_records_def dt_year_def dt_date_def numeral_2_eq_2)
  from training_days_bounds [OF h1 h2 h3 h4, of "(2024, 1, 1)"] h5
  have "training_days ?s \<le> total_sets ?s \<and> training_days ?s = 1"
    by blast
  with h1 h2 h3 dates show ?thesis
    by simp
qed

section \<open>Average and maximum weight\<close>

text \<open>
  C8. For every group with a non-empty selection, \<^verbatim>\<open>avg_weight\<close> is the arithmetic mean
  and \<^verbatim>\<open>max_weight\<close> the maximum of the weights of the selected records; and the three
  example records of "Squat (Barbell)" give, for the year 2024, total_sets = 3,
  total_reps = 13, total_volume = 1365, training_days = 2, max_weight = 110 and
  avg_weight = 105.
\<close>

theorem avg_and_max_weight:
  assumes "distinct (map fst m)" and "(g, al) \<in> set m" and "selection df al y \<noteq> []"
  shows "(\<exists>all_stats all_dfs s.
            analyze_exercises (Table dt df) m y = Inr (all_stats, all_dfs) \<and>
            all_stats g = Some s \<and>
            avg_weight s =
              Some ((\<Sum>r\<leftarrow>selection df al y. Weight r) / of_nat (length (selection df al y))) \<and>
            max_weight s = Some (Max (Weight ` set (selection df al y)))) \<and>
         (\<exists>all_stats all_dfs.
            analyze_exercises (Table dt example_records) exercise_mappings 2024 =
              Inr (all_stats, all_dfs) \<and>
            all_stats ''Squat (Barbell)'' =
              Some \<lparr>total_volume = 1365, total_sets = 3, total_reps = 13,
                    avg_weight = Some 105, max_weight = Some 110, training_days = 2\<rparr>)"
proof -
  let ?sel = "selection df al y"
  let ?ws = "map Weight (exercise_frame dt ?sel)"
  let ?s = "group_stats dt (exercise_frame dt ?sel)"
  from analyze_exercises_group [OF assms(1,2), of dt df y] assms(3)
  obtain all_stats all_dfs where
    out: "analyze_exercises (Table dt df) m y = Inr (all_stats, all_dfs)" and
    g: "all_stats g = Some ?s"
    by auto
  from assms(3) have ne: "?ws \<noteq> []"
    using length_exercise_frame [of dt ?sel] by auto
  have sum: "sum_list ?ws = (\<Sum>r\<leftarrow>?sel. Weight r)"
    by (simp add: sum_list_frame with_volume_def)
  have set: "set ?ws = Weight ` set ?sel"
    by (auto simp: set_exercise_frame with_volume_def image_iff)
  from ne obtain w ws where ws: "?ws = w # ws"
    by (cases ?ws) auto
  have "series_mean ?ws = Some (sum_list ?ws / of_nat (length ?ws))"
    by (simp only: ws series_mean.simps)
  then have avg: "avg_weight ?s = Some ((\<Sum>r\<leftarrow>?sel. Weight r) / of_nat (length ?sel))"
    by (simp add: group_stats_def sum length_exercise_frame)
  have "series_max ?ws = Some (Max (set ?ws))"
    by (simp only: ws series_max.simps Max.set_eq_fold)
  then have mx: "max_weight ?s = Some (Max (Weight ` set ?sel))"
    by (simp add: group_stats_def set del: set_map)
  from out g avg mx have general: "\<exists>all_stats all_dfs s.
            analyze_exercises (Table dt df) m y = Inr (all_stats, all_dfs) \<and>
            all_stats g = Some s \<and>
            avg_weight s =
              Some ((\<Sum>r\<leftarrow>selection df al y. Weight r) / of_nat (length (selection df al y))) \<and>
            max_weight s = Some (Max (Weight ` set (selection df al y)))"
    by blast
  from analyze_example have "\<exists>all_stats all_dfs.
            analyze_exercises (Table dt example_records) exercise_mappings 2024 =
              Inr (all_stats, all_dfs) \<and>
            all_stats ''Squat (Barbell)'' =
              Some \<lparr>total_volume = 1365, total_sets = 3, total_reps = 13,
                    avg_weight = Some 105, max_weight = Some 110, training_days = 2\<rparr>"
    by simp
  with general show ?thesis by blast
qed

theorem avg_and_max_weight_witness:
  "distinct (map fst exercise_mappings) \<and>
   (''Squat (Barbell)'', [''Squat (Barbell)'']) \<in> set exercise_mappings \<and>
   selection example_records [''Squat (Barbell)''] 2024 \<noteq> [] \<and>
   (\<exists>all_stats all_dfs s.
      analyze_exercises (Table Int64 example_records) exercise_mappings 2024 = Inr (all_stats, all_dfs) \<and>
      all_stats ''Squat (Barbell)'' = Some s \<and>
      avg_weight s = Some 105 \<and> max_weight s = Some 110)"
proof -
  have sel: "selection example_records [''Squat (Barbell)''] 2024 = example_records"
    by (simp add: selection_def example_records_def dt_year_def)
  have h1: "distinct (map fst exercise_mappings)"
    by (simp add: exercise_mappings_def)
  have h2: "(''Squat (Barbell)'', [''Squat (Barbell)'']) \<in> set exercise_mappings"
    by (simp add: exercise_mappings_def)
  have h3: "selection example_records [''Squat (Barbell)''] 2024 \<noteq> []"
    by (simp add: sel) (simp add: example_records_def)
  have mean: "(\<Sum>r\<leftarrow>example_records. Weight r) / of_nat (length example_records) = 105"
    and mx: "Max (Weight ` set example_records) = 110"
    by (simp_all add: example_records_def)
  from avg_and_max_weight [OF h1 h2 h3] h1 h2 h3 show ?thesis
    by (simp only: sel mean mx) blast
qed

section \<open>The time series of a group\<close>

text \<open>
  C9. For every group in the series dictionary that \<^verbatim>\<open>analyze_exercises\<close> returns, the rows of
  the group's frame are in ascending order of their dates.
\<close>

theorem series_sorted_by_date:
  assumes "analyze_exercises fs m y = Inr (all_stats, all_dfs)" and "all_dfs g = Some series"
  shows "sorted (map Date series)"
  using analyze_exercises_values [OF assms(1), of g] assms(2) sorted_exercise_frame
  by auto

theorem series_sorted_by_date_witness:
  "analyze_exercises (Table Int64 (rev example_records)) exercise_mappings 2024 =
     Inr ([''Squat (Barbell)'' \<mapsto>
             \<lparr>total_volume = 1365, total_sets = 3, total_reps = 13, avg_weight = Some 105,
              max_weight = Some 110, training_days = 2\<rparr>],
          [''Squat (Barbell)'' \<mapsto>
             map (with_volume Int64) [example_records ! 1, example_records ! 0, example_records ! 2]]) \<and>
   map Date (rev example_records) = [((2024, 1, 8), 0), ((2024, 1, 1), 0), ((2024, 1, 1), 0)] \<and>
   sorted (map Date (map (with_volume Int64)
      [example_records ! 1, example_records ! 0, example_records ! 2]))"
proof -
  have h2: "[''Squat (Barbell)'' \<mapsto>
             map (with_volume Int64) [example_records ! 1, example_records ! 0, example_records ! 2]]
          ''Squat (Barbell)'' =
        Some (map (with_volume Int64) [example_records ! 1, example_records ! 0, example_records ! 2])"
    by simp
  have dates: "map Date (rev example_records) =
      [((2024, 1, 8), 0), ((2024, 1, 1), 0), ((2024, 1, 1), 0)]"
    by (simp add: example_records_def)
  from series_sorted_by_date [OF analyze_example_rev h2] analyze_example_rev dates
  show ?thesis by blast
qed

section \<open>Records outside the target year\<close>



section \<open>Aliases of a group\<close>

text \<open>
  C3, as the program has it. With the configured mappings, every record of the target year
  named "Deadlift (Barbell)" or "Deadlift Old Data " (the alias of line 210 ends in a
  space) is a row of the frame of the group "Deadlift (Barbell)", and the group's
  statistics are taken over all the records with one of these two names.
\<close>

theorem deadlift_aliases_merged:
  assumes "r \<in> set df" and "dt_year (Date r) = y"
    and "Exercise_Name r = ''Deadlift (Barbell)'' \<or> Exercise_Name r = ''Deadlift Old Data ''"
  shows "\<exists>all_stats all_dfs s series.
     analyze_exercises (Table dt df) exercise_mappings y = Inr (all_stats, all_dfs) \<and>
     all_stats ''Deadlift (Barbell)'' = Some s \<and>
     all_dfs ''Deadlift (Barbell)'' = Some series \<and>
     with_volume dt r \<in> set series \<and>
     s = group_stats dt series \<and>
     mset series =
       image_mset (with_volume dt)
         (mset (filter (\<lambda>r. (Exercise_Name r = ''Deadlift (Barbell)'' \<or>
                              Exercise_Name r = ''Deadlift Old Data '') \<and>
                             dt_year (Date r) = y) df))"
proof -
  let ?al = "[''Deadlift (Barbell)'', ''Deadlift Old Data '']"
  let ?sel = "selection df ?al y"
  have d: "distinct (map fst exercise_mappings)"
    by (simp add: exercise_mappings_def)
  have mem: "(''Deadlift (Barbell)'', ?al) \<in> set exercise_mappings"
    by (simp add: exercise_mappings_def)
  have sel: "?sel = filter (\<lambda>r. (Exercise_Name r = ''Deadlift (Barbell)'' \<or>
                              Exercise_Name r = ''Deadlift Old Data '') \<and>
                             dt_year (Date r) = y) df"
    by (simp add: selection_def)
  from assms have r: "r \<in> set ?sel"
    by (auto simp: selection_def)
  then have ne: "?sel \<noteq> []"
    by auto
  from analyze_exercises_group [OF d mem, of dt df y] ne
  obtain all_stats all_dfs where
    out: "analyze_exercises (Table dt df) exercise_mappings y = Inr (all_stats, all_dfs)" and
    s: "all_stats ''Deadlift (Barbell)'' = Some (group_stats dt (exercise_frame dt ?sel))" and
    fr: "all_dfs ''Deadlift (Barbell)'' = Some (exercise_frame dt ?sel)"
    by auto
  from r have "with_volume dt r \<in> set (exercise_frame dt ?sel)"
    by (simp only: set_exercise_frame) (rule imageI)
  moreover have "mset (exercise_frame dt ?sel) = image_mset (with_volume dt) (mset ?sel)"
    by (simp add: mset_exercise_frame)
  ultimately show ?thesis
    using out s fr unfolding sel by blast
qed

theorem deadlift_aliases_merged_witness:
  "\<lparr>Date = ((2024, 2, 1), 0), Exercise_Name = ''Deadlift Old Data '', Weight = 200, Reps = 5\<rparr>
     \<in> set [\<lparr>Date = ((2024, 3, 1), 0), Exercise_Name = ''Deadlift (Barbell)'',
               Weight = 220, Reps = 3\<rparr>,
             \<lparr>Date = ((2024, 2, 1), 0), Exercise_Name = ''Deadlift Old Data '',
               Weight = 200, Reps = 5\<rparr>] \<and>
   dt_year (Date \<lparr>Date = ((2024, 2, 1), 0), Exercise_Name = ''Deadlift Old Data '',
                   Weight = 200, Reps = 5\<rparr>) = 2024 \<and>
   Exercise_Name \<lparr>Date = ((2024, 2, 1), 0), Exercise_Name = ''Deadlift Old Data '',
                  Weight = 200, Reps = 5\<rparr> = ''Deadlift Old Data '' \<and>
   (\<exists>all_stats all_dfs s series.
      analyze_exercises
        (Table Int64 [\<lparr>Date = ((2024, 3, 1), 0), Exercise_Name = ''Deadlift (Barbell)'',
                  Weight = 220, Reps = 3\<rparr>,
                \<lparr>Date = ((2024, 2, 1), 0), Exercise_Name = ''Deadlift Old Data '',
                  Weight = 200, Reps = 5\<rparr>])
        exercise_mappings 2024 = Inr (all_stats, all_dfs) \<and>
      all_stats ''Deadlift (Barbell)'' = Some s \<and>
      all_dfs ''Deadlift (Barbell)'' = Some series \<and>
      with_volume Int64 \<lparr>Date = ((2024, 2, 1), 0), Exercise_Name = ''Deadlift Old Data '',
                   Weight = 200, Reps = 5\<rparr> \<in> set series \<and>
      s = group_stats Int64 series \<and>
      size (mset series) = 2)"
proof -
  let ?a = "\<lparr>Date = ((2024, 3, 1), 0), Exercise_Name = ''Deadlift (Barbell)'',
             Weight = 220, Reps = 3\<rparr>"
  let ?r = "\<lparr>Date = ((2024, 2, 1), 0), Exercise_Name = ''Deadlift Old Data '',
             Weight = 200, Reps = 5\<rparr>"
  have h1: "?r \<in> set [?a, ?r]" by simp
  have h2: "dt_year (Date ?r) = 2024" by (simp add: dt_year_def)
  have h3: "Exercise_Name ?r = ''Deadlift (Barbell)'' \<or> Exercise_Name ?r = ''Deadlift Old Data ''"
    by simp
  have n: "filter (\<lambda>r. (Exercise_Name r = ''Deadlift (Barbell)'' \<or>
                              Exercise_Name r = ''Deadlift Old Data '') \<and>
                             dt_year (Date r) = 2024) [?a, ?r] = [?a, ?r]"
    by (simp add: dt_year_def)
  from deadlift_aliases_merged [OF h1 h2 h3, of Int64]
  obtain all_stats all_dfs s series where
    out: "analyze_exercises (Table Int64 [?a, ?r]) exercise_mappings 2024 = Inr (all_stats, all_dfs)"
    and s: "all_stats ''Deadlift (Barbell)'' = Some s"
    and fr: "all_dfs ''Deadlift (Barbell)'' = Some series"
    and r: "with_volume Int64 ?r \<in> set series"
    and gs: "s = group_stats Int64 series"
    and ms: "mset series = image_mset (with_volume Int64) (mset [?a, ?r])"
    unfolding n by blast
  from ms have "size (mset series) = size (image_mset (with_volume Int64) (mset [?a, ?r]))"
    by (rule arg_cong)
  then have sz: "size (mset series) = 2"
    by simp
  from out s fr r gs sz have ex: "\<exists>all_stats all_dfs s series.
      analyze_exercises (Table Int64 [?a, ?r]) exercise_mappings 2024 = Inr (all_stats, all_dfs) \<and>
      all_stats ''Deadlift (Barbell)'' = Some s \<and>
      all_dfs ''Deadlift (Barbell)'' = Some series \<and>
      with_volume Int64 ?r \<in> set series \<and>
      s = group_stats Int64 series \<and>
      size (mset series) = 2"
    by blast
  have h4: "Exercise_Name ?r = ''Deadlift Old Data ''"
    by simp
  from h1 h2 h4 ex show ?thesis
    by blast
qed

text \<open>
  C3 as the specification words it names the alias "Deadlift Old Data", without the
  space: a record of 2024 with exactly that name is in no group, and the group
  "Deadlift (Barbell)" is absent from both dictionaries.
\<close>

theorem deadlift_old_data_counterexample:
  "analyze_exercises
     (Table Int64 [\<lparr>Date = ((2024, 2, 1), 0), Exercise_Name = ''Deadlift Old Data'',
               Weight = 200, Reps = 5\<rparr>])
     exercise_mappings 2024 = Inr (Map.empty, Map.empty)"
  by (simp add: analyze_exercises_def read_csv_def analyze_group_def exercise_mappings_def
      dt_year_def)

section \<open>The year argument of the report\<close>

lemma analyze_exercises_year_filter:
  "analyze_exercises (Table dt (filter (\<lambda>r. dt_year (Date r) = y) df)) m y =
     analyze_exercises (Table dt df) m y"
  by (simp add: analyze_exercises_Table)

text \<open>
  C10. The year given to \<^verbatim>\<open>create_comprehensive_report\<close> reaches the title only. Two
  calls that differ in the year alone fail with the same exception or give reports equal
  but for the title; the panels are those of \<^verbatim>\<open>analyze_exercises\<close> for 2024, the default
  year, so that the records of other years, the given year among them, do not count.
\<close>

theorem report_year_only_in_title:
  "create_comprehensive_report env m year =
     map_prod id (retitle (''Training Analysis Report - '' @ str_int year))
       (create_comprehensive_report env m year') \<and>
   create_comprehensive_report \<lparr>data_file = Table dt df, fault = flt, partial_write = pw\<rparr> m year =
     create_comprehensive_report
       \<lparr>data_file = Table dt (filter (\<lambda>r. dt_year (Date r) = 2024) df), fault = flt,
        partial_write = pw\<rparr>
       m year \<and>
   (\<forall>rep. snd (create_comprehensive_report env m year) = Saved rep \<longrightarrow>
      (\<exists>stats dfs.
         analyze_exercises (data_file env) m 2024 = Inr (stats, dfs) \<and>
         create_detailed_stats_table env stats (map fst m) = Inr (stats_table rep) \<and>
         create_training_days_plot env stats (map fst m) = Inr (training_days_bars rep) \<and>
         create_sets_per_session_plot env stats (map fst m) = Inr (sets_per_session_bars rep) \<and>
         create_volume_plot env stats (map fst m) = Inr (volume_bars rep) \<and>
         create_weight_progression_plot env dfs (map fst m) = Inr (weight_progression rep)))"
proof -
  have title: "create_comprehensive_report env m year =
     map_prod id (retitle (''Training Analysis Report - '' @ str_int year))
       (create_comprehensive_report env m year')"
    by (simp add: create_comprehensive_report_def then_do_def Let_def
        split: sum.splits prod.splits)
  have filtered:
    "create_comprehensive_report \<lparr>data_file = Table dt df, fault = flt, partial_write = pw\<rparr> m year =
     create_comprehensive_report
       \<lparr>data_file = Table dt (filter (\<lambda>r. dt_year (Date r) = 2024) df), fault = flt,
        partial_write = pw\<rparr>
       m year"
    by (rule report_cong) (simp_all add: default_year_def analyze_exercises_year_filter)
  have panels: "\<exists>stats dfs.
         analyze_exercises (data_file env) m 2024 = Inr (stats, dfs) \<and>
         create_detailed_stats_table env stats (map fst m) = Inr (stats_table rep) \<and>
         create_training_days_plot env stats (map fst m) = Inr (training_days_bars rep) \<and>
         create_sets_per_session_plot env stats (map fst m) = Inr (sets_per_session_bars rep) \<and>
         create_volume_plot env stats (map fst m) = Inr (volume_bars rep) \<and>
         create_weight_progression_plot env dfs (map fst m) = Inr (weight_progression rep)"
    if "snd (create_comprehensive_report env m year) = Saved rep" for rep
    using that
    by (auto simp: create_comprehensive_report_def default_year_def then_do_def Let_def
        split: sum.splits prod.splits if_splits)
  from title filtered panels show ?thesis by blast
qed

theorem report_year_only_in_title_witness:
  "create_comprehensive_report
     \<lparr>data_file = Table Int64
        (\<lparr>Date = ((2023, 5, 2), 0), Exercise_Name = ''Squat (Barbell)'',
          Weight = 90, Reps = 8\<rparr> # example_records),
      fault = None, partial_write = False\<rparr>
     exercise_mappings 2023 =
   (None,
    Saved \<lparr>title = ''Training Analysis Report - 2023'',
        stats_table =
          [\<lparr>row_name = ''Squat'', row_training_days = 2, row_total_sets = 3,
            row_sets_per_day = 3 / 2, row_total_reps = 13, row_total_volume = 1365,
            row_avg_weight = Some 105, row_max_weight = Some 110\<rparr>],
        training_days_bars = [(''Squat'', 2)],
        sets_per_session_bars = [(''Squat'', 3 / 2)],
        volume_bars = [(''Squat'', 1365)],
        weight_progression =
          [(''Squat'', [(((2024, 1, 1), 0), 100), (((2024, 1, 1), 0), 105),
                        (((2024, 1, 8), 0), 110)])]\<rparr>)"
proof -
  let ?old = "\<lparr>Date = ((2023, 5, 2), 0), Exercise_Name = ''Squat (Barbell)'',
               Weight = 90, Reps = 8\<rparr>"
  let ?env = "\<lparr>data_file = Table Int64 example_records, fault = None, partial_write = False\<rparr>"
  have f: "filter (\<lambda>r. dt_year (Date r) = 2024) (?old # example_records) = example_records"
    by (simp add: example_records_def dt_year_def)
  have r2024: "create_comprehensive_report ?env exercise_mappings 2024 =
    (None,
     Saved \<lparr>title = ''Training Analysis Report - 2024'',
        stats_table =
          [\<lparr>row_name = ''Squat'', row_training_days = 2, row_total_sets = 3,
            row_sets_per_day = 3 / 2, row_total_reps = 13, row_total_volume = 1365,
            row_avg_weight = Some 105, row_max_weight = Some 110\<rparr>],
        training_days_bars = [(''Squat'', 2)],
        sets_per_session_bars = [(''Squat'', 3 / 2)],
        volume_bars = [(''Squat'', 1365)],
        weight_progression =
          [(''Squat'', [(((2024, 1, 1), 0), 100), (((2024, 1, 1), 0), 105),
                        (((2024, 1, 8), 0), 110)])]\<rparr>)"
    by (simp add: create_comprehensive_report_def default_year_def analyze_example
        then_do_def call_def)
      (simp add: exercise_mappings_def truediv_def create_detailed_stats_table_def
        create_training_days_plot_def create_sets_per_session_plot_def
        create_volume_plot_def create_weight_progression_plot_def then_do_def call_def
        label_of_def str_replace.simps str_int_def str_nat.simps example_records_def
        with_volume_def)
  have t: "str_int 2023 = ''2023''"
    by (simp add: str_int_def str_nat.simps)
  from report_year_only_in_title
    [of ?env exercise_mappings 2023 2024 Int64 "?old # example_records" None False]
  have "create_comprehensive_report
          \<lparr>data_file = Table Int64 (?old # example_records), fault = None,
           partial_write = False\<rparr>
          exercise_mappings 2023 =
        map_prod id (retitle (''Training Analysis Report - '' @ str_int 2023))
          (create_comprehensive_report ?env exercise_mappings 2024)"
    by (simp only: f)
  then show ?thesis
    by (simp add: r2024 t)
qed

section \<open>The handlers of the main block\<close>

lemma report_read_failure:
  "read_csv (data_file env) = Inl e \<Longrightarrow>
     create_comprehensive_report env m year = (Some e, Untouched)"
  by (simp add: create_comprehensive_report_def analyze_exercises_def then_do_def)

lemma report_written:
  assumes "fst (create_comprehensive_report env m year) = Some e"
    and "snd (create_comprehensive_report env m year) \<noteq> Untouched"
  shows "fault env = Some (43, e) \<or> fault env = Some (44, e)"
  using assms
  by (auto simp: create_comprehensive_report_def Let_def call_eq_Inl
      split: sum.splits if_splits)

lemma report_raises_or_saves:
  "(\<exists>e out. create_comprehensive_report env m year = (Some e, out)) \<or>
   (\<exists>rep. create_comprehensive_report env m year = (None, Saved rep))"
  by (auto simp: create_comprehensive_report_def Let_def split: sum.splits)

lemma table_data_rows_empty:
  "(\<And>ex. ex \<in> set exercises \<Longrightarrow> stats ex = None) \<Longrightarrow> table_data_rows stats exercises = Inr []"
  by (induction exercises) simp_all

lemma table_data_rows_nonempty:
  "table_data_rows stats exercises = Inr rows \<Longrightarrow> ex \<in> set exercises \<Longrightarrow> stats ex \<noteq> None
     \<Longrightarrow> rows \<noteq> []"
  by (induction exercises arbitrary: rows) (auto split: option.splits sum.splits)

lemma sets_per_session_nonempty:
  "sets_per_session stats exercises = Inr bars \<Longrightarrow> ex \<in> set exercises \<Longrightarrow> stats ex \<noteq> None
     \<Longrightarrow> bars \<noteq> []"
  by (induction exercises arbitrary: bars) (auto split: option.splits sum.splits)

lemma report_no_rows:
  assumes "data_file env = Table dt df" and "fault env = None"
    and "\<And>g al. (g, al) \<in> set m \<Longrightarrow> selection df al default_year = []"
  shows "create_comprehensive_report env m year =
           (Some (PyExc IndexError ''list index out of range''), Untouched)"
proof -
  obtain stats dfs where out: "analyze_exercises (Table dt df) m default_year = Inr (stats, dfs)"
    by (cases "fold (analyze_group dt (filter (\<lambda>r. dt_year (Date r) = default_year) df)) m
          (Map.empty, Map.empty)")
      (simp add: analyze_exercises_Table)
  have "stats g = None" for g
    using analyze_exercises_values [OF out, of g] assms(3) by auto
  then have "table_data_rows stats (map fst m) = Inr []"
    by (simp add: table_data_rows_empty)
  then have "create_detailed_stats_table env stats (map fst m) =
      Inl (PyExc IndexError ''list index out of range'')"
    by (simp add: create_detailed_stats_table_def call_no_fault [OF assms(2)] then_do_def)
  with out assms(1,2) show ?thesis
    by (simp add: create_comprehensive_report_def call_no_fault [OF assms(2)] then_do_def)
qed

lemma report_success:
  assumes "data_file env = Table dt df" and "fault env = None"
    and "distinct (map fst m)" and "(g, al) \<in> set m" and "selection df al default_year \<noteq> []"
  shows "\<exists>rep. create_comprehensive_report env m year = (None, Saved rep)"
proof -
  from analyze_exercises_group [OF assms(3,4), of dt df default_year] assms(5)
  obtain stats dfs where out: "analyze_exercises (Table dt df) m default_year = Inr (stats, dfs)"
    and g: "stats g \<noteq> None"
    by auto
  have pos: "1 \<le> training_days s" if "stats k = Some s" for k s
    using analyze_exercises_values [OF out, of k] that training_days_pos
    by auto
  from pos table_no_division_by_zero [of stats "map fst m"]
    bars_no_division_by_zero [of stats "map fst m"]
  obtain table_data bars where
    rows: "table_data_rows stats (map fst m) = Inr table_data" and
    bars: "sets_per_session stats (map fst m) = Inr bars"
    by blast
  from assms(4) have key: "g \<in> set (map fst m)"
    by force
  from table_data_rows_nonempty [OF rows key g] have ne: "table_data \<noteq> []" .
  from rows ne have table: "create_detailed_stats_table env stats (map fst m) = Inr table_data"
    by (simp add: create_detailed_stats_table_def calls_no_fault [OF assms(2)]
        call_no_fault [OF assms(2)] then_do_def)
  from bars have sets: "create_sets_per_session_plot env stats (map fst m) = Inr bars"
    by (simp add: create_sets_per_session_plot_def call_no_fault [OF assms(2)] then_do_def)
  from out table sets assms(1) show ?thesis
    by (simp add: create_comprehensive_report_def create_training_days_plot_def
        create_volume_plot_def create_weight_progression_plot_def
        calls_no_fault [OF assms(2)] call_no_fault [OF assms(2)] then_do_def Let_def)
qed

text \<open>
  C4, as the program has it. When \<^verbatim>\<open>data/strong.csv\<close> does not exist the run prints
  "Error: Could not find 'data/strong.csv'. Please check the file path.". A file that
  exists but cannot be opened or parsed, a table without a record of 2024 for any group
  (the \<^verbatim>\<open>IndexError\<close> of the empty table), and every exception of another class than
  \<^verbatim>\<open>FileNotFoundError\<close> are printed as "An error occurred: " and the exception's message.
  An exception raised before \<^verbatim>\<open>plt.savefig\<close> is called leaves the output path untouched:
  the run has written something only if it raised no exception, or if the exception came
  from \<^verbatim>\<open>plt.savefig\<close> (line 43) or \<^verbatim>\<open>plt.close\<close> (line 44). The line of success is
  printed exactly when no exception was raised, and then the image has been saved.
\<close>

theorem main_error_handling:
  "(data_file env = Absent \<longrightarrow>
      main env = \<lparr>printed = [''Error: Could not find '' @ quoted csv_path
                                 @ ''. Please check the file path.''],
                  written = Untouched\<rparr>) \<and>
   (data_file env = Unreadable \<longrightarrow>
      main env = \<lparr>printed = [''An error occurred: [Errno 13] Permission denied: ''
                                 @ quoted csv_path],
                  written = Untouched\<rparr>) \<and>
   (\<forall>msg. data_file env = Malformed msg \<longrightarrow>
      main env = \<lparr>printed = [''An error occurred: '' @ msg], written = Untouched\<rparr>) \<and>
   (\<forall>dt df. data_file env = Table dt df \<longrightarrow> fault env = None \<longrightarrow>
      (\<forall>g al. (g, al) \<in> set exercise_mappings \<longrightarrow> selection df al 2024 = []) \<longrightarrow>
      main env = \<lparr>printed = [''An error occurred: list index out of range''],
                  written = Untouched\<rparr>) \<and>
   (\<forall>dt df g al. data_file env = Table dt df \<longrightarrow> fault env = None \<longrightarrow>
      (g, al) \<in> set exercise_mappings \<longrightarrow> selection df al 2024 \<noteq> [] \<longrightarrow>
      (\<exists>rep. main env =
         \<lparr>printed = [''Report has been generated and saved as ''
                        @ quoted ''output/training_report.png''],
          written = Saved rep\<rparr>)) \<and>
   (\<forall>e. fst (create_comprehensive_report env exercise_mappings default_year) = Some e \<longrightarrow>
      exc_class_of e \<noteq> FileNotFoundError \<longrightarrow>
      printed (main env) = [''An error occurred: '' @ exc_str e]) \<and>
   (\<forall>e. fst (create_comprehensive_report env exercise_mappings default_year) = Some e \<longrightarrow>
      written (main env) \<noteq> Untouched \<longrightarrow>
      fault env = Some (43, e) \<or> fault env = Some (44, e)) \<and>
   (printed (main env) = [''Report has been generated and saved as ''
                            @ quoted ''output/training_report.png''] \<longleftrightarrow>
      fst (create_comprehensive_report env exercise_mappings default_year) = None) \<and>
   (fst (create_comprehensive_report env exercise_mappings default_year) = None \<longrightarrow>
      (\<exists>rep. written (main env) = Saved rep))"
proof -
  let ?run = "create_comprehensive_report env exercise_mappings default_year"
  have absent: "main env = \<lparr>printed = [''Error: Could not find '' @ quoted csv_path
                                 @ ''. Please check the file path.''],
                  written = Untouched\<rparr>" if "data_file env = Absent"
    using that report_read_failure [of env _ exercise_mappings default_year]
    by (simp add: main_def read_csv_def)
  have unreadable: "main env =
      \<lparr>printed = [''An error occurred: [Errno 13] Permission denied: '' @ quoted csv_path],
       written = Untouched\<rparr>" if "data_file env = Unreadable"
    using that report_read_failure [of env _ exercise_mappings default_year]
    by (simp add: main_def read_csv_def)
  have malformed: "main env = \<lparr>printed = [''An error occurred: '' @ msg], written = Untouched\<rparr>"
    if "data_file env = Malformed msg" for msg
    using that report_read_failure [of env _ exercise_mappings default_year]
    by (simp add: main_def read_csv_def)
  have no_rows: "main env = \<lparr>printed = [''An error occurred: list index out of range''],
                  written = Untouched\<rparr>"
    if "data_file env = Table dt df" and "fault env = None"
      and "\<forall>g al. (g, al) \<in> set exercise_mappings \<longrightarrow> selection df al 2024 = []" for dt df
    using report_no_rows [OF that(1,2), of exercise_mappings default_year] that(3)
    by (simp add: main_def default_year_def)
  have ok: "\<exists>rep. main env =
         \<lparr>printed = [''Report has been generated and saved as ''
                        @ quoted ''output/training_report.png''],
          written = Saved rep\<rparr>"
    if "data_file env = Table dt df" and "fault env = None"
      and "(g, al) \<in> set exercise_mappings" and "selection df al 2024 \<noteq> []" for dt df g al
  proof -
    have d: "distinct (map fst exercise_mappings)"
      by (simp add: exercise_mappings_def)
    from that(4) have "selection df al default_year \<noteq> []"
      by (simp add: default_year_def)
    from report_success [OF that(1,2) d that(3) this, of default_year]
    show ?thesis by (auto simp: main_def)
  qed
  have message: "printed (main env) = [''An error occurred: '' @ exc_str e]"
    if "fst ?run = Some e" and "exc_class_of e \<noteq> FileNotFoundError" for e
    using that by (cases ?run) (simp add: main_def)
  have before_save: "fault env = Some (43, e) \<or> fault env = Some (44, e)"
    if "fst ?run = Some e" and "written (main env) \<noteq> Untouched" for e
  proof -
    from that have "snd ?run \<noteq> Untouched"
      by (cases ?run) (simp add: main_def split: if_splits)
    with that(1) show ?thesis by (rule report_written)
  qed
  have success_iff: "printed (main env) = [''Report has been generated and saved as ''
                            @ quoted ''output/training_report.png''] \<longleftrightarrow> fst ?run = None"
    by (cases ?run) (auto simp: main_def quoted_def csv_path_def split: option.splits)
  have saved: "\<exists>rep. written (main env) = Saved rep" if "fst ?run = None"
    using that report_raises_or_saves [of env exercise_mappings default_year]
    by (auto simp: main_def)
  from absent unreadable malformed no_rows ok message before_save success_iff saved
  show ?thesis
    by blast
qed

theorem main_error_handling_witness:
  "main \<lparr>data_file = Absent, fault = None, partial_write = False\<rparr> =
     \<lparr>printed = [''Error: Could not find '' @ quoted ''data/strong.csv''
                    @ ''. Please check the file path.''],
      written = Untouched\<rparr> \<and>
   main \<lparr>data_file = Malformed ''Unknown datetime string format'', fault = None,
         partial_write = False\<rparr> =
     \<lparr>printed = [''An error occurred: Unknown datetime string format''],
      written = Untouched\<rparr> \<and>
   main \<lparr>data_file = Table Int64 [], fault = None, partial_write = False\<rparr> =
     \<lparr>printed = [''An error occurred: list index out of range''], written = Untouched\<rparr> \<and>
   (\<exists>rep. main \<lparr>data_file = Table Int64 example_records, fault = None,
                 partial_write = False\<rparr> =
      \<lparr>printed = [''Report has been generated and saved as ''
                     @ quoted ''output/training_report.png''],
       written = Saved rep\<rparr>) \<and>
   fst (create_comprehensive_report
          \<lparr>data_file = Table Int64 example_records,
           fault = Some (42, PyExc OSError ''[Errno 28] No space left on device''),
           partial_write = True\<rparr>
          exercise_mappings default_year) =
     Some (PyExc OSError ''[Errno 28] No space left on device'') \<and>
   main \<lparr>data_file = Table Int64 example_records,
         fault = Some (42, PyExc OSError ''[Errno 28] No space left on device''),
         partial_write = True\<rparr> =
     \<lparr>printed = [''An error occurred: [Errno 28] No space left on device''],
      written = Untouched\<rparr>"
proof -
  let ?absent = "\<lparr>data_file = Absent, fault = None, partial_write = False\<rparr>"
  let ?bad = "\<lparr>data_file = Malformed ''Unknown datetime string format'', fault = None,
               partial_write = False\<rparr>"
  let ?empty = "\<lparr>data_file = Table Int64 [], fault = None, partial_write = False\<rparr>"
  let ?good = "\<lparr>data_file = Table Int64 example_records, fault = None,
                partial_write = False\<rparr>"
  let ?e = "PyExc OSError ''[Errno 28] No space left on device''"
  let ?full = "\<lparr>data_file = Table Int64 example_records, fault = Some (42, ?e),
                partial_write = True\<rparr>"
  from main_error_handling [of ?absent]
  have a: "main ?absent =
     \<lparr>printed = [''Error: Could not find '' @ quoted ''data/strong.csv''
                    @ ''. Please check the file path.''],
      written = Untouched\<rparr>"
    by (simp add: csv_path_def)
  from main_error_handling [of ?bad]
  have b: "main ?bad =
     \<lparr>printed = [''An error occurred: Unknown datetime string format''],
      written = Untouched\<rparr>"
    by simp
  have none: "\<forall>g al. (g, al) \<in> set exercise_mappings \<longrightarrow> selection [] al 2024 = []"
    by (simp add: selection_def)
  from main_error_handling [of ?empty] none
  have c: "main ?empty =
     \<lparr>printed = [''An error occurred: list index out of range''], written = Untouched\<rparr>"
    by simp
  have key: "(''Squat (Barbell)'', [''Squat (Barbell)'']) \<in> set exercise_mappings"
    by (simp add: exercise_mappings_def)
  have sel: "selection example_records [''Squat (Barbell)''] 2024 \<noteq> []"
    by (simp add: selection_def example_records_def dt_year_def)
  from main_error_handling [of ?good] key sel
  have d: "\<exists>rep. main ?good =
      \<lparr>printed = [''Report has been generated and saved as ''
                     @ quoted ''output/training_report.png''],
       written = Saved rep\<rparr>"
    by simp
  have run: "create_comprehensive_report ?full exercise_mappings default_year =
      (Some ?e, Untouched)"
    by (simp add: create_comprehensive_report_def default_year_def analyze_example
        then_do_def call_def)
      (simp add: exercise_mappings_def truediv_def create_detailed_stats_table_def
        create_training_days_plot_def create_sets_per_session_plot_def
        create_volume_plot_def create_weight_progression_plot_def then_do_def call_def
        example_records_def with_volume_def)
  then have raised: "fst (create_comprehensive_report ?full exercise_mappings default_year) =
      Some ?e"
    by simp
  have cls: "exc_class_of ?e \<noteq> FileNotFoundError"
    by simp
  from main_error_handling [of ?full] raised cls
  have msg: "printed (main ?full) = [''An error occurred: '' @ exc_str ?e]"
    by blast
  have "fault ?full \<noteq> Some (43, ?e)" and "fault ?full \<noteq> Some (44, ?e)"
    by simp_all
  with main_error_handling [of ?full] raised
  have "written (main ?full) = Untouched"
    by blast
  with msg have f: "main ?full =
     \<lparr>printed = [''An error occurred: [Errno 28] No space left on device''],
      written = Untouched\<rparr>"
    by (cases "main ?full") simp
  from a b c d raised f show ?thesis
    by blast
qed

text \<open>
  C4 as the specification words it covers every data file that cannot be read. A file
  that exists and may not be opened raises \<^verbatim>\<open>PermissionError\<close>, which the first handler
  does not catch: the run prints the text of the I/O error, not the line that names the
  file as missing.
\<close>

theorem unreadable_file_counterexample:
  "printed (main \<lparr>data_file = Unreadable, fault = None, partial_write = False\<rparr>) =
     [''An error occurred: [Errno 13] Permission denied: '' @ quoted ''data/strong.csv''] \<and>
   printed (main \<lparr>data_file = Unreadable, fault = None, partial_write = False\<rparr>) \<noteq>
     [''Error: Could not find '' @ quoted ''data/strong.csv'' @ ''. Please check the file path.'']"
  by (simp add: main_def create_comprehensive_report_def analyze_exercises_def read_csv_def
      then_do_def csv_path_def quoted_def)

end
